theory Spec2Isabelle
  imports Complex_Main
begin

section \<open>Errors\<close>

text \<open>
  Every exception the modelled code can raise is a value of \<open>error\<close>; a function that
  can raise returns \<open>error + 'a\<close> with \<open>Inl\<close> for the exception.
  \<^item> \<open>ValueError\<close>: numpy and scipy refuse a negative dimension;
  \<^item> \<open>PhiRangeNotDiscretized\<close>, \<open>NotExtendedVariable\<close>: the two exceptions of
    \<open>Circuit.set_discretized_phi_range\<close>;
  \<^item> \<open>TruncDimsNotSet\<close>: "The truncated dimensions attribute for hierarchical
    diagonalization is not set." of \<open>Circuit._configure\<close>;
  \<^item> \<open>ConfigureFailed\<close>: the \<open>RuntimeError\<close> "Configure failed due to incorrect
    parameters." of \<open>Circuit.configure\<close>;
  \<^item> \<open>External msg\<close>: an exception raised inside a collaborator that is not part of the
    modelled sources (the symbolic circuit, the routines that build subsystems and
    operators).
\<close>

datatype error =
    ValueError
  | PhiRangeNotDiscretized
  | NotExtendedVariable int
  | TruncDimsNotSet
  | KeyError string
  | TypeError
  | AttributeError string
  | ConfigureFailed
  | InvalidBasisCompletion
  | External string

section \<open>Matrices\<close>

text \<open>
  A matrix is the list of its rows. Sparse and dense matrices of the source differ in
  storage only; the model keeps their entries. Python floats are read as reals and
  Python complex numbers as complex numbers.
\<close>

type_synonym 'a matrix = "'a list list"

definition matrix_of :: "nat \<Rightarrow> nat \<Rightarrow> (nat \<Rightarrow> nat \<Rightarrow> 'a) \<Rightarrow> 'a matrix" where
  "matrix_of m n f = map (\<lambda>i. map (\<lambda>j. f i j) [0..<n]) [0..<m]"

text \<open>
  \<open>scipy.sparse.dia_matrix((data, [offset]), shape=(m, n))\<close>: the entry in row \<open>i\<close> and
  column \<open>j = i + offset\<close> is \<open>data[j]\<close> (the data of a diagonal is indexed by column),
  every other entry is zero. A negative dimension raises \<open>ValueError\<close>.
\<close>

definition dia_matrix :: "'a::zero list \<Rightarrow> int \<Rightarrow> int \<Rightarrow> int \<Rightarrow> error + 'a matrix" where
  "dia_matrix data offset m n =
     (if m < 0 \<or> n < 0 then Inl ValueError
      else Inr (matrix_of (nat m) (nat n)
             (\<lambda>i j. if int j = int i + offset \<and> j < length data then data ! j else 0)))"

text \<open>\<open>scipy.sparse.dia_matrix((m, n))\<close>: the empty (all zero) matrix of that shape.\<close>

definition dia_matrix_empty :: "int \<Rightarrow> int \<Rightarrow> error + real matrix" where
  "dia_matrix_empty m n =
     (if m < 0 \<or> n < 0 then Inl ValueError
      else Inr (matrix_of (nat m) (nat n) (\<lambda>i j. 0)))"

text \<open>\<open>M.setdiag(values)\<close>: overwrites the main diagonal, as far as \<open>values\<close> reaches.\<close>

definition setdiag :: "'a list \<Rightarrow> 'a matrix \<Rightarrow> 'a matrix" where
  "setdiag vs M =
     map (\<lambda>i. if i < length vs \<and> i < length (M ! i) then (M ! i)[i := vs ! i] else M ! i)
       [0..<length M]"

text \<open>\<open>x.diagonal()\<close> and \<open>scipy.sparse.diags(values)\<close>.\<close>

definition diagonal :: "'a matrix \<Rightarrow> 'a list" where
  "diagonal M = map (\<lambda>i. M ! i ! i) (filter (\<lambda>i. i < length (M ! i)) [0..<length M])"

definition diags :: "'a::zero list \<Rightarrow> 'a matrix" where
  "diags vs = matrix_of (length vs) (length vs) (\<lambda>i j. if i = j then vs ! i else 0)"

definition np_ones :: "int \<Rightarrow> error + real list" where
  "np_ones n = (if n < 0 then Inl ValueError else Inr (replicate (nat n) 1))"

text \<open>\<open>np.arange(a, b)\<close> on integers: \<open>a, a + 1, ..., b - 1\<close>.\<close>

definition np_arange :: "int \<Rightarrow> int \<Rightarrow> int list" where
  "np_arange a b = [a..b - 1]"

definition sparse_identity :: "int \<Rightarrow> error + real matrix" where
  "sparse_identity n =
     (if n < 0 then Inl ValueError
      else Inr (matrix_of (nat n) (nat n) (\<lambda>i j. if i = j then 1 else 0)))"

definition mat_add :: "'a::plus matrix \<Rightarrow> 'a matrix \<Rightarrow> 'a matrix" where
  "mat_add A B = map2 (map2 (+)) A B"

definition mat_sub :: "'a::minus matrix \<Rightarrow> 'a matrix \<Rightarrow> 'a matrix" where
  "mat_sub A B = map2 (map2 (-)) A B"

definition mat_scale :: "'a::times \<Rightarrow> 'a matrix \<Rightarrow> 'a matrix" where
  "mat_scale c A = map (map ((*) c)) A"

section \<open>Basis operators of a periodic variable (circuit\_utils.py)\<close>

text \<open>
  The source names start with an underscore (\<open>_identity_theta\<close>, \<open>_n_theta_operator\<close>,
  \<open>_exp_i_theta_operator\<close>, \<open>_exp_i_theta_operator_conjugate\<close>, \<open>_cos_theta\<close>,
  \<open>_sin_theta\<close>); the model drops it. \<open>ncut\<close> is a Python integer.
\<close>

definition identity_theta :: "int \<Rightarrow> error + real matrix" where
  "identity_theta ncut = (let dim_theta = 2 * ncut + 1 in sparse_identity dim_theta)"

definition n_theta_operator :: "int \<Rightarrow> error + int matrix" where
  "n_theta_operator ncut =
     (let dim_theta = 2 * ncut + 1;
          diag_elements = np_arange (- ncut) (ncut + 1)
      in dia_matrix diag_elements 0 dim_theta dim_theta)"

definition exp_i_theta_operator :: "int \<Rightarrow> error + real matrix" where
  "exp_i_theta_operator ncut =
     (let dim_theta = 2 * ncut + 1 in
      case np_ones dim_theta of
        Inl e \<Rightarrow> Inl e
      | Inr ones \<Rightarrow> dia_matrix ones 1 dim_theta dim_theta)"

definition exp_i_theta_operator_conjugate :: "int \<Rightarrow> error + real matrix" where
  "exp_i_theta_operator_conjugate ncut =
     (let dim_theta = 2 * ncut + 1 in
      case np_ones dim_theta of
        Inl e \<Rightarrow> Inl e
      | Inr ones \<Rightarrow> dia_matrix ones (- 1) dim_theta dim_theta)"

definition cos_theta :: "int \<Rightarrow> error + real matrix" where
  "cos_theta ncut =
     (case exp_i_theta_operator ncut of
        Inl e \<Rightarrow> Inl e
      | Inr ep \<Rightarrow>
         (case exp_i_theta_operator_conjugate ncut of
            Inl e \<Rightarrow> Inl e
          | Inr em \<Rightarrow> Inr (mat_scale (1 / 2) (mat_add ep em))))"

definition sin_theta :: "int \<Rightarrow> error + complex matrix" where
  "sin_theta ncut =
     (case exp_i_theta_operator ncut of
        Inl e \<Rightarrow> Inl e
      | Inr ep \<Rightarrow>
         (case exp_i_theta_operator_conjugate ncut of
            Inl e \<Rightarrow> Inl e
          | Inr em \<Rightarrow>
              Inr (mat_scale (- \<i> * complex_of_real (1 / 2))
                     (map (map complex_of_real) (mat_sub ep em)))))"

section \<open>Basis operators of an extended variable on a grid (circuit\_utils.py)\<close>

record Grid1d =
  min_val :: real
  max_val :: real
  pt_count :: int

text \<open>
  Modelled from the spec: \<open>Grid1d.make_linspace\<close> belongs to
  \<open>scqubits.core.discretization\<close>, which is not among the sources. The spec calls its
  result the "grid coordinates" of an N-point grid given by (lower bound, upper bound,
  point count): \<open>pt_count\<close> evenly spaced points from \<open>min_val\<close> to \<open>max_val\<close>, both
  included (\<open>np.linspace\<close>).
\<close>

definition make_linspace :: "Grid1d \<Rightarrow> error + real list" where
  "make_linspace grid =
     (if pt_count grid < 0 then Inl ValueError
      else Inr (map (\<lambda>i. if pt_count grid = 1 then min_val grid
                          else min_val grid
                               + real i * ((max_val grid - min_val grid) / real_of_int (pt_count grid - 1)))
                  [0..<nat (pt_count grid)]))"

definition identity_phi :: "Grid1d \<Rightarrow> error + real matrix" where
  "identity_phi grid = sparse_identity (pt_count grid)"

definition phi_operator :: "Grid1d \<Rightarrow> error + real matrix" where
  "phi_operator grid =
     (case dia_matrix_empty (pt_count grid) (pt_count grid) of
        Inl e \<Rightarrow> Inl e
      | Inr phi_matrix \<Rightarrow>
         (case make_linspace grid of
            Inl e \<Rightarrow> Inl e
          | Inr diag_elements \<Rightarrow> Inr (setdiag diag_elements phi_matrix)))"

definition cos_phi :: "Grid1d \<Rightarrow> error + real matrix" where
  "cos_phi grid =
     (case dia_matrix_empty (pt_count grid) (pt_count grid) of
        Inl e \<Rightarrow> Inl e
      | Inr cos_op \<Rightarrow>
         (case make_linspace grid of
            Inl e \<Rightarrow> Inl e
          | Inr xs \<Rightarrow> Inr (setdiag (map cos xs) cos_op)))"

text \<open>The source of \<open>_sin_phi\<close> computes its diagonal with \<open>np.cos\<close>; so does the model.\<close>

definition sin_phi :: "Grid1d \<Rightarrow> error + real matrix" where
  "sin_phi grid =
     (case dia_matrix_empty (pt_count grid) (pt_count grid) of
        Inl e \<Rightarrow> Inl e
      | Inr sin_op \<Rightarrow>
         (case make_linspace grid of
            Inl e \<Rightarrow> Inl e
          | Inr xs \<Rightarrow> Inr (setdiag (map cos xs) sin_op)))"

text \<open>
  \<open>_cos_dia\<close> and \<open>_sin_dia\<close>: the elementwise function of the diagonal of a matrix, put
  back on a diagonal.
\<close>

definition cos_dia :: "real matrix \<Rightarrow> real matrix" where
  "cos_dia x = diags (map cos (diagonal x))"

definition sin_dia :: "real matrix \<Rightarrow> real matrix" where
  "sin_dia x = diags (map sin (diagonal x))"

section \<open>Symbol names (circuit\_utils.py)\<close>

text \<open>
  Names are strings of 8-bit characters; a character outside ASCII is its UTF-8 byte
  sequence. The pattern \<open>\d\<close> is read as the ASCII digits \<open>0\<close> to \<open>9\<close>. Python matches
  \<open>\d\<close> in a \<open>str\<close> pattern with every Unicode decimal digit, and \<open>int\<close> accepts those
  digits: on a name with a decimal digit of another script the code returns a number
  where \<open>is_digit\<close> sees none. Such names are outside the model; the facts below that
  hold for all names say so in a hypothesis on the bytes of the name (ASCII, or the two
  lead bytes \<open>0xCE\<close> and \<open>0xCF\<close> of the Greek block, which has no decimal digit, with
  their continuation bytes).
\<close>

definition newline :: char where
  "newline = CHR 0x0A"

definition is_digit :: "char \<Rightarrow> bool" where
  "is_digit c = (48 \<le> (of_char c :: nat) \<and> (of_char c :: nat) \<le> 57)"

text \<open>
  \<open>int(text)\<close> on a string of decimal digits. Recent versions of Python refuse a text
  of more than 4300 digits (\<open>ValueError\<close>); \<open>int_of_digits\<close> is total, and the facts
  below that return a number bound the length of the name.
\<close>

definition int_of_digits :: "string \<Rightarrow> int" where
  "int_of_digits ds = foldl (\<lambda>acc c. 10 * acc + (int (of_char c) - 48)) 0 ds"

text \<open>
  The anchor \<open>$\<close> of Python's \<open>re\<close> (without \<open>MULTILINE\<close>) matches at the end of the
  string and also just before a newline that is the last character of the string.
\<close>

definition at_dollar :: "string \<Rightarrow> bool" where
  "at_dollar rest = (rest = [] \<or> rest = [newline])"

text \<open>
  \<open>re.search(r"\d+$", input_str)\<close>: the start positions are tried from left to right;
  at a position the greedy \<open>\d+\<close> takes the longest run of digits, and \<open>$\<close> must match
  behind it (behind a shorter run the next character is a digit, where \<open>$\<close> fails).
  The result is the matched text.
\<close>

fun search_digits_dollar :: "string \<Rightarrow> string option" where
  "search_digits_dollar [] = None"
| "search_digits_dollar (c # cs) =
     (if takeWhile is_digit (c # cs) \<noteq> [] \<and> at_dollar (dropWhile is_digit (c # cs))
      then Some (takeWhile is_digit (c # cs))
      else search_digits_dollar cs)"

definition get_trailing_number :: "string \<Rightarrow> int option" where
  "get_trailing_number input_str =
     (case search_digits_dollar input_str of
        Some m \<Rightarrow> Some (int_of_digits m)
      | None \<Rightarrow> None)"

text \<open>
  For comparison with \<open>get_trailing_number\<close>, the trailing integer index of a name in
  the words of the specification (a symbol name has a "trailing index" or, malformed,
  none) and of the docstring ("Returns the number appearing at the end of a string",
  "returns the trailing integer as int, else returns None"): the number that the digits
  at the end of the name write; a name whose last character is not a digit has none.
\<close>

definition spec_trailing_index :: "string \<Rightarrow> int option" where
  "spec_trailing_index name =
     (let digits = rev (takeWhile is_digit (rev name))
      in if digits = [] then None else Some (int_of_digits digits))"

text \<open>
  \<open>re.match(r"^" + prefix + r"\d+$", name)\<close>, the four patterns of
  \<open>Circuit._read_symbolic_hamiltonian\<close>.
\<close>

definition match_prefix_digits :: "string \<Rightarrow> string \<Rightarrow> bool" where
  "match_prefix_digits pre name =
     (take (length pre) name = pre
      \<and> takeWhile is_digit (drop (length pre) name) \<noteq> []
      \<and> at_dollar (dropWhile is_digit (drop (length pre) name)))"

text \<open>\<open>str(i)\<close> for an integer, as the f-strings of the cutoff names use it.\<close>

fun str_nat :: "nat \<Rightarrow> string" where
  "str_nat n = (if n < 10 then [''0123456789'' ! n]
                else str_nat (n div 10) @ [''0123456789'' ! (n mod 10)])"

declare str_nat.simps [simp del]

definition str_int :: "int \<Rightarrow> string" where
  "str_int i = (if i < 0 then CHR ''-'' # str_nat (nat (- i)) else str_nat (nat i))"

text \<open>\<open>needle in haystack\<close> on strings.\<close>

fun contains_str :: "string \<Rightarrow> string \<Rightarrow> bool" where
  "contains_str needle [] = (needle = [])"
| "contains_str needle (c # cs) =
     (take (length needle) (c # cs) = needle \<or> contains_str needle cs)"

text \<open>The letter \<open>\<Phi>\<close> (U+03A6) of the flux names, in UTF-8.\<close>

definition Phi :: string where
  "Phi = [CHR 0xCE, CHR 0xA6]"

section \<open>Dictionaries\<close>

text \<open>
  A Python dictionary is an association list with distinct keys in insertion order;
  \<open>map_of\<close> reads it.
\<close>

definition dict_set :: "'k \<Rightarrow> 'v \<Rightarrow> ('k \<times> 'v) list \<Rightarrow> ('k \<times> 'v) list" where
  "dict_set k v d =
     (if k \<in> fst ` set d then map (\<lambda>(k', v'). if k' = k then (k', v) else (k', v')) d
      else d @ [(k, v)])"

definition has_key :: "'k \<Rightarrow> ('k \<times> 'v) list \<Rightarrow> bool" where
  "has_key k d = (k \<in> fst ` set d)"

text \<open>\<open>a or b\<close> where \<open>a\<close> is \<open>None\<close> or a list: \<open>b\<close> when \<open>a\<close> is \<open>None\<close> or empty.\<close>

definition py_or :: "'a list option \<Rightarrow> 'a list option \<Rightarrow> 'a list option" where
  "py_or a b = (case a of None \<Rightarrow> b | Some [] \<Rightarrow> b | Some (x # xs) \<Rightarrow> Some (x # xs))"

section \<open>The data model (circuit.py)\<close>

text \<open>\<open>RecursiveList = List[Union[int, "RecursiveList"]]\<close>: \<open>rlist\<close> is one element.\<close>

datatype rlist = Idx int | Lst "rlist list"

text \<open>
  Modelled from the spec: \<open>number_of_lists_in_list\<close> and \<open>flatten_list\<close> belong to
  \<open>scqubits.utils.misc\<close>, which is not among the sources. By their names and their use
  the first counts the elements of a list that are themselves lists (the spec: a
  hierarchy entry is "a flat index list" or "a nested entry"), and the second joins the
  lists of a list.
\<close>

fun is_list :: "rlist \<Rightarrow> bool" where
  "is_list (Lst xs) = True"
| "is_list (Idx i) = False"

definition number_of_lists_in_list :: "rlist list \<Rightarrow> nat" where
  "number_of_lists_in_list list_object = length (filter is_list list_object)"

definition flatten_list :: "'a list list \<Rightarrow> 'a list" where
  "flatten_list nested_list = concat nested_list"

text \<open>
  Modelled from the spec: \<open>flatten_list_recursive\<close> (also of \<open>scqubits.utils.misc\<close>)
  flattens a list of lists recursively. \<open>truncation_template\<close> of circuit\_utils.py
  applies it to one entry of the hierarchy at a time; an entry that is an integer is not
  a list and cannot be flattened (\<open>TypeError\<close>).
\<close>

function flatten_list_recursive :: "rlist list \<Rightarrow> rlist list" where
  "flatten_list_recursive [] = []"
| "flatten_list_recursive (Lst x # rest) = flatten_list_recursive x @ flatten_list_recursive rest"
| "flatten_list_recursive (Idx i # rest) = Idx i # flatten_list_recursive rest"
  by pat_completeness auto
termination
  by (relation "measure (size_list size)") auto

text \<open>
  \<open>truncation_template\<close> fixes the shape that a truncation specification has for a
  hierarchy: an integer for a flat entry, \<open>[integer, template of the entry]\<close> for a
  nested one. The recursive call of the source passes the hierarchy only, so the inner
  levels use the defaults 6 and 30.
\<close>

fun truncation_template_entry :: "int \<Rightarrow> int \<Rightarrow> rlist \<Rightarrow> error + rlist" where
  "truncation_template_entry individual_trunc_dim combined_trunc_dim (Idx i) = Inl TypeError"
| "truncation_template_entry individual_trunc_dim combined_trunc_dim (Lst xs) =
     (if xs = flatten_list_recursive xs then Inr (Idx individual_trunc_dim)
      else (let inner = map (truncation_template_entry 6 30) xs
            in if list_ex isl inner then Inl TypeError
               else Inr (Lst [Idx combined_trunc_dim, Lst (map projr inner)])))"

definition truncation_template :: "rlist list \<Rightarrow> int \<Rightarrow> int \<Rightarrow> error + rlist list" where
  "truncation_template system_hierarchy individual_trunc_dim combined_trunc_dim =
     (let trunc_dims =
            map (truncation_template_entry individual_trunc_dim combined_trunc_dim) system_hierarchy
      in if list_ex isl trunc_dims then Inl TypeError else Inr (map projr trunc_dims))"

text \<open>
  Two specifications have the same nested shape when they agree up to the integers at
  their leaves; a truncation specification fits a hierarchy when it has the shape of
  the hierarchy's template.
\<close>

fun shape :: "rlist \<Rightarrow> rlist" where
  "shape (Idx i) = Idx 0"
| "shape (Lst xs) = Lst (map shape xs)"

definition same_nested_shape :: "rlist list \<Rightarrow> rlist list \<Rightarrow> bool" where
  "same_nested_shape system_hierarchy subsystem_trunc_dims =
     (case truncation_template system_hierarchy 6 30 of
        Inl e \<Rightarrow> False
      | Inr template \<Rightarrow> map shape subsystem_trunc_dims = map shape template)"

type_synonym tmatrix = "real list list"

datatype param = Symbol string | Number real

record Branch =
  node_ids :: "int \<times> int"
  branch_type :: string
  parameters :: "(string \<times> param) list"

text \<open>
  A symbolic expression is represented by what the modelled code observes of it: the
  names of its free symbols, the operator names that
  \<open>operator_names_in_hamiltonian_symbolic\<close> reports for it, and the verdict of
  \<open>_is_expression_purely_harmonic\<close> (both of \<open>CircuitRoutines\<close>, not among the
  sources).
\<close>

record expr =
  free_symbols :: "string list"
  operator_names :: "string list"
  purely_harmonic :: bool

text \<open>The attributes of a \<open>SymbolicCircuit\<close> that \<open>Circuit\<close> reads.\<close>

record SymbolicCircuit =
  sc_input_string :: string
  sc_basis_completion :: string
  sc_is_flux_dynamic :: bool
  sc_node_count :: nat
  sc_branches :: "Branch list"
  sc_closure_branches :: "Branch list"
  sc_external_fluxes :: "string list"
  sc_offset_charges :: "string list"
  sc_symbolic_params :: "(string \<times> real) list"
  sc_hamiltonian_symbolic :: expr
  sc_transformation_matrix :: tmatrix
  sc_var_categories :: "(string \<times> int list) list"
  sc_is_purely_harmonic :: bool

text \<open>The value of a property slot (\<open>_cutoff_n_1\<close>, \<open>_EJ\<close>, ...).\<close>

datatype slot = IntV int | FloatV real | MatrixV "tmatrix option" | HierarchyV "rlist list option"

text \<open>
  One record stands for an instance of \<open>Circuit\<close> or of \<open>Subsystem\<close>: both classes carry
  the same attributes, and the parent of a \<open>Subsystem\<close> is either. \<open>symbolic_circuit\<close>
  is \<open>None\<close> when the attribute does not exist (a circuit built from a symbolic
  Hamiltonian, or a subsystem). \<open>attrs\<close> holds the property slots by property name
  (the slot of property \<open>EJ\<close> is the attribute \<open>_EJ\<close>). \<open>warnings\<close> collects the
  messages of \<open>warnings.warn\<close>. \<open>derived\<close> stands for everything the collaborators
  outside the sources build and keep on the instance (symbol tables, the numeric
  Hamiltonian, operators, subsystems): they may read the whole instance and rewrite
  \<open>derived\<close>.
\<close>

record Circuit =
  is_child :: bool
  frozen :: bool
  symbolic_circuit :: "SymbolicCircuit option"
  hamiltonian_symbolic :: expr
  ext_basis :: string
  truncated_dim :: "int option"
  system_hierarchy :: "rlist list option"
  subsystem_trunc_dims :: "rlist list option"
  transformation_matrix :: "tmatrix option"
  closure_branches :: "Branch list option"
  external_fluxes :: "string list"
  offset_charges :: "string list"
  symbolic_params :: "(string \<times> real) list"
  var_categories :: "(string \<times> int list) list"
  var_index_list :: "int list"
  is_purely_harmonic :: bool
  hierarchical_diagonalization :: bool
  cutoff_names :: "string list"
  attrs :: "(string \<times> slot) list"
  discretized_phi_range :: "(int \<times> real \<times> real) list"
  type_of_matrices :: string
  warnings :: "string list"
  derived :: nat

section \<open>Collaborators outside the sources\<close>

text \<open>
  The methods of \<open>CircuitRoutines\<close>, of \<open>SymbolicCircuit\<close> and of the dispatcher are not
  among the sources; the modelled code calls them, and they can raise. They are
  parameters of the model:
  \<^item> \<open>sc_from_yaml input_string from_file basis_completion is_flux_dynamic\<close> is
    \<open>SymbolicCircuit.from_yaml\<close>;
  \<^item> \<open>sc_configure transformation_matrix closure_branches\<close> is
    \<open>SymbolicCircuit.configure\<close>: it returns the exception, if any, and the symbolic
    circuit as the call leaves it;
  \<^item> \<open>run_routine r\<close> is the method \<open>r\<close> called on an instance: it returns the
    exception, if any, and the new value of \<open>derived\<close>;
  \<^item> \<open>SYM_INVERSION_MAX_NODES\<close> is the constant of \<open>scqubits.settings\<close>.
\<close>

datatype routine =
    SetVars
  | GenerateHamiltonianSymForNumerics
  | SetOperators
  | GenerateSubsystems
  | UpdateInteractions
  | CheckTruncationIndices
  | Update
  | GenerateSymbolicHamiltonian
  | ShiftHarmonicOscillatorPotential
  | DiagonalizePurelyHarmonicHamiltonian
  | UpdateExtBasis
  | RegisterCircuitUpdate

record env =
  sc_from_yaml :: "string \<Rightarrow> bool \<Rightarrow> string \<Rightarrow> bool \<Rightarrow> error + SymbolicCircuit"
  sc_configure :: "tmatrix option \<Rightarrow> Branch option list option \<Rightarrow> SymbolicCircuit
                     \<Rightarrow> error option \<times> SymbolicCircuit"
  run_routine :: "routine \<Rightarrow> Circuit \<Rightarrow> error option \<times> nat"
  SYM_INVERSION_MAX_NODES :: nat

section \<open>Statements that change an instance and may raise\<close>

text \<open>
  A statement maps the instance to the exception it raised, if any, and the instance
  as it is at that moment: an exception leaves the changes made before it in place.
\<close>

type_synonym step = "Circuit \<Rightarrow> error option \<times> Circuit"

definition assign :: "(Circuit \<Rightarrow> Circuit) \<Rightarrow> step" where
  "assign f c = (None, f c)"

definition raise :: "error \<Rightarrow> step" where
  "raise e c = (Some e, c)"

definition call :: "env \<Rightarrow> routine \<Rightarrow> step" where
  "call E r c = (case run_routine E r c of (x, d) \<Rightarrow> (x, c\<lparr>derived := d\<rparr>))"

fun run :: "step list \<Rightarrow> step" where
  "run [] c = (None, c)"
| "run (f # fs) c = (case f c of (None, c') \<Rightarrow> run fs c' | (Some e, c') \<Rightarrow> (Some e, c'))"

definition run_if :: "(Circuit \<Rightarrow> bool) \<Rightarrow> step \<Rightarrow> step" where
  "run_if b f c = (if b c then f c else (None, c))"

text \<open>A statement preserves a property when the property survives it, raised or not.\<close>

definition preserves :: "(Circuit \<Rightarrow> bool) \<Rightarrow> step \<Rightarrow> bool" where
  "preserves P s = (\<forall>c x c'. P c \<longrightarrow> s c = (x, c') \<longrightarrow> P c')"

text \<open>
  Modelled from the spec: \<open>_make_property(name, initial_value, update_kind)\<close> of
  \<open>CircuitRoutines\<close> "creates a mutable slot"; the property \<open>name\<close> reads the slot
  \<open>_name\<close>, so \<open>hasattr\<close> of either holds exactly when the slot exists. The property
  \<open>ext_basis\<close> is the field \<open>ext_basis\<close> of the record; a write through its setter
  stores the value and then runs the handler \<open>update_ext_basis\<close>.
\<close>

definition make_property :: "string \<Rightarrow> slot \<Rightarrow> Circuit \<Rightarrow> Circuit" where
  "make_property name v c = c\<lparr>attrs := dict_set name v (attrs c)\<rparr>"

definition hasattr :: "Circuit \<Rightarrow> string \<Rightarrow> bool" where
  "hasattr c name = has_key name (attrs c)"

definition set_ext_basis :: "env \<Rightarrow> string \<Rightarrow> step" where
  "set_ext_basis E v = run [assign (\<lambda>c. c\<lparr>ext_basis := v\<rparr>), call E UpdateExtBasis]"

section \<open>Subsystem (circuit.py)\<close>

text \<open>
  Lines 170 to 175 of \<open>Subsystem.__init__\<close>: the trailing numbers of the operator names,
  each once, sorted.
\<close>

definition collect_var_index :: "string \<Rightarrow> int list \<Rightarrow> int list" where
  "collect_var_index var_name indices =
     (let var_index = get_trailing_number var_name
      in if var_index \<notin> Some ` set indices \<and> var_index \<noteq> None
         then indices @ [the var_index] else indices)"

definition subsystem_var_index_list :: "string list \<Rightarrow> int list" where
  "subsystem_var_index_list names = sort (fold collect_var_index names [])"

text \<open>Lines 178 to 184: the parent's categories, filtered.\<close>

definition subsystem_var_categories ::
  "(string \<times> int list) list \<Rightarrow> int list \<Rightarrow> (string \<times> int list) list" where
  "subsystem_var_categories parent_var_categories indices =
     fold (\<lambda>var_type d.
             dict_set var_type
               (filter (\<lambda>var_index. var_index \<in> set indices)
                  (the (map_of parent_var_categories var_type))) d)
       (map fst parent_var_categories) []"

text \<open>Lines 187 to 194.\<close>

definition subsystem_cutoff_names :: "(string \<times> int list) list \<Rightarrow> string list" where
  "subsystem_cutoff_names cats =
     concat (map (\<lambda>var_type.
        (if var_type = ''periodic''
         then map (\<lambda>var_index. ''cutoff_n_'' @ str_int var_index) (the (map_of cats ''periodic''))
         else [])
        @ (if var_type = ''extended''
           then map (\<lambda>var_index. ''cutoff_ext_'' @ str_int var_index) (the (map_of cats ''extended''))
           else []))
       (map fst cats))"

text \<open>\<open>getattr(self.parent, name)\<close> followed by \<open>_make_property\<close>.\<close>

definition inherit_property :: "Circuit \<Rightarrow> string \<Rightarrow> step" where
  "inherit_property parent name c =
     (case map_of (attrs parent) name of
        None \<Rightarrow> (Some (AttributeError name), c)
      | Some v \<Rightarrow> (None, make_property name v c))"

text \<open>Lines 292 to 299 of \<open>Subsystem._configure\<close>: the slot \<open>_ext_basis\<close> is written directly.\<close>

definition subsystem_harmonic_check :: "env \<Rightarrow> step" where
  "subsystem_harmonic_check E c =
     (if purely_harmonic (hamiltonian_symbolic c)
      then run [assign (\<lambda>c. c\<lparr>is_purely_harmonic := True\<rparr>),
                assign (\<lambda>c. c\<lparr>ext_basis := ''harmonic''\<rparr>),
                call E DiagonalizePurelyHarmonicHamiltonian] c
      else assign (\<lambda>c. c\<lparr>is_purely_harmonic := False\<rparr>) c)"

text \<open>Lines 307 to 322.\<close>

definition subsystem_build :: "env \<Rightarrow> step" where
  "subsystem_build E c =
     (if hierarchical_diagonalization c
      then run [call E GenerateSubsystems, call E UpdateInteractions,
                call E CheckTruncationIndices, call E SetOperators] c
      else call E SetOperators c)"

definition Subsystem__configure :: "env \<Rightarrow> Circuit \<Rightarrow> step" where
  "Subsystem__configure E parent c =
     run ([assign (\<lambda>c. c\<lparr>frozen := False\<rparr>)]
          @ map (inherit_property parent) (map fst (symbolic_params c))
          @ map (inherit_property parent) (external_fluxes c)
          @ map (inherit_property parent) (offset_charges c)
          @ map (inherit_property parent) (cutoff_names c)
          @ [subsystem_harmonic_check E,
             call E SetVars,
             call E GenerateHamiltonianSymForNumerics,
             subsystem_build E,
             run_if hierarchical_diagonalization (call E RegisterCircuitUpdate),
             assign (\<lambda>c. c\<lparr>frozen := True\<rparr>)]) c"

text \<open>
  \<open>Subsystem.__init__\<close>. The calls it makes before \<open>_configure\<close> on collaborators
  (\<open>QubitBaseClass.__init__\<close>, the rewriting of the potential) do not touch the
  attributes of the record and are left out. For a subsystem without hierarchy the
  default \<open>system_hierarchy = None\<close> is read as "no list in it".
\<close>

definition Subsystem_init ::
  "env \<Rightarrow> Circuit \<Rightarrow> expr \<Rightarrow> rlist list option \<Rightarrow> rlist list option \<Rightarrow> int option
     \<Rightarrow> error option \<times> Circuit" where
  "Subsystem_init E parent hamiltonian system_hierarchy' subsystem_trunc_dims' truncated_dim' =
     (let vil = subsystem_var_index_list (operator_names hamiltonian);
          cats = subsystem_var_categories (var_categories parent) vil;
          ext = ext_basis parent
      in Subsystem__configure E parent
           \<lparr>is_child = True,
            frozen = False,
            symbolic_circuit = None,
            hamiltonian_symbolic = hamiltonian,
            ext_basis = ext,
            truncated_dim = truncated_dim',
            system_hierarchy = system_hierarchy',
            subsystem_trunc_dims = subsystem_trunc_dims',
            transformation_matrix = None,
            closure_branches = None,
            external_fluxes =
              filter (\<lambda>var. var \<in> set (free_symbols hamiltonian)) (external_fluxes parent),
            offset_charges =
              filter (\<lambda>var. var \<in> set (free_symbols hamiltonian)) (offset_charges parent),
            symbolic_params =
              filter (\<lambda>(var, v). var \<in> set (free_symbols hamiltonian)) (symbolic_params parent),
            var_categories = cats,
            var_index_list = vil,
            is_purely_harmonic = False,
            hierarchical_diagonalization =
              (case system_hierarchy' of None \<Rightarrow> False
               | Some h \<Rightarrow> number_of_lists_in_list h > 0),
            cutoff_names = subsystem_cutoff_names cats,
            attrs = [],
            discretized_phi_range =
              filter (\<lambda>(idx, r). idx \<in> set vil) (discretized_phi_range parent),
            type_of_matrices =
              (if length vil = 1 \<and> ext = ''harmonic'' then ''dense'' else ''sparse''),
            warnings = [],
            derived = 0\<rparr>)"

section \<open>Circuit.set\_discretized\_phi\_range (circuit.py)\<close>

definition set_phi_range_of :: "real \<times> real \<Rightarrow> int \<Rightarrow> step" where
  "set_phi_range_of phi_range var_index c =
     (case map_of (var_categories c) ''extended'' of
        None \<Rightarrow> (Some (KeyError ''extended''), c)
      | Some extended \<Rightarrow>
          if var_index \<notin> set extended then (Some (NotExtendedVariable var_index), c)
          else (None, c\<lparr>discretized_phi_range :=
                          dict_set var_index phi_range (discretized_phi_range c)\<rparr>))"

definition set_discretized_phi_range :: "env \<Rightarrow> int list \<Rightarrow> real \<times> real \<Rightarrow> step" where
  "set_discretized_phi_range E var_indices phi_range c =
     (if ext_basis c \<noteq> ''discretized'' then (Some PhiRangeNotDiscretized, c)
      else run (map (set_phi_range_of phi_range) var_indices @ [call E SetOperators]) c)"

section \<open>Circuit.\_configure and Circuit.\_configure\_sym\_hamiltonian (circuit.py)\<close>

text \<open>\<open>Circuit._read_symbolic_hamiltonian\<close>: the symbols are classified by their names.\<close>

definition read_symbolic_hamiltonian ::
  "expr \<Rightarrow> string list \<times> string list \<times> (string \<times> int list) list" where
  "read_symbolic_hamiltonian h =
     (let names = free_symbols h
      in (filter (match_prefix_digits Phi) names,
          filter (match_prefix_digits ''ng'') names,
          [(''periodic'',
              map (\<lambda>name. the (get_trailing_number name)) (filter (match_prefix_digits ''n'') names)),
           (''extended'',
              map (\<lambda>name. the (get_trailing_number name)) (filter (match_prefix_digits ''Q'') names)),
           (''free'', []),
           (''frozen'', [])]))"

text \<open>
  The purely harmonic case, lines 1071 to 1077 of \<open>_configure\<close> and 904 to 910 of
  \<open>_configure_sym_hamiltonian\<close>. Both read \<open>self.symbolic_circuit.normal_mode_freqs\<close>
  first, which raises \<open>AttributeError\<close> on an instance without symbolic circuit.
\<close>

definition harmonic_warning :: string where
  "harmonic_warning =
     ''Purely harmonic circuits need ext_basis to be set to '' @ [CHR 0x27] @ ''harmonic''
       @ [CHR 0x27]"

definition harmonic_override :: "env \<Rightarrow> step" where
  "harmonic_override E c =
     (if is_purely_harmonic c
      then (case symbolic_circuit c of
              None \<Rightarrow> (Some (AttributeError ''symbolic_circuit''), c)
            | Some sc \<Rightarrow>
                if ext_basis c \<noteq> ''harmonic''
                then run [assign (\<lambda>c. c\<lparr>warnings := warnings c @ [harmonic_warning]\<rparr>),
                          set_ext_basis E ''harmonic''] c
                else (None, c))
      else (None, c))"

text \<open>
  The properties and ranges, lines 1080 to 1128 of \<open>_configure\<close>; lines 913 to 961 of
  \<open>_configure_sym_hamiltonian\<close> are the same text. (\<open>cutoff_names\<close> exists when they run:
  both initialisers set it.)
\<close>

definition ensure_cutoff :: "string \<Rightarrow> int \<Rightarrow> int \<Rightarrow> Circuit \<Rightarrow> Circuit" where
  "ensure_cutoff prefix default_value var_index c =
     (if \<not> hasattr c (prefix @ str_int var_index)
      then (make_property (prefix @ str_int var_index) (IntV default_value) c)
             \<lparr>cutoff_names := cutoff_names c @ [prefix @ str_int var_index]\<rparr>
      else c)"

definition init_cutoffs :: "Circuit \<Rightarrow> Circuit" where
  "init_cutoffs c0 =
     fold (\<lambda>var_type c.
             (let c1 = (if var_type = ''periodic''
                        then fold (ensure_cutoff ''cutoff_n_'' 5)
                               (the (map_of (var_categories c) ''periodic'')) c
                        else c)
              in if var_type = ''extended''
                 then fold (ensure_cutoff ''cutoff_ext_'' 30)
                        (the (map_of (var_categories c1) ''extended'')) c1
                 else c1))
       (map fst (var_categories c0)) c0"

definition ensure_property :: "string \<Rightarrow> slot \<Rightarrow> Circuit \<Rightarrow> Circuit" where
  "ensure_property name v c = (if \<not> hasattr c name then make_property name v c else c)"

definition ensure_phi_range :: "int \<Rightarrow> Circuit \<Rightarrow> Circuit" where
  "ensure_phi_range var_index c =
     (if \<not> has_key var_index (discretized_phi_range c)
      then c\<lparr>discretized_phi_range :=
               dict_set var_index (- 6 * pi, 6 * pi) (discretized_phi_range c)\<rparr>
      else c)"

definition init_phi_ranges :: step where
  "init_phi_ranges c =
     (case map_of (var_categories c) ''extended'' of
        None \<Rightarrow> (Some (KeyError ''extended''), c)
      | Some extended \<Rightarrow> (None, fold ensure_phi_range extended c))"

definition init_properties :: step where
  "init_properties =
     run [assign init_cutoffs,
          assign (\<lambda>c. c\<lparr>var_index_list := flatten_list (map snd (var_categories c))\<rparr>),
          assign (\<lambda>c. fold (\<lambda>(name, v). ensure_property name (FloatV v)) (symbolic_params c) c),
          init_phi_ranges,
          assign (\<lambda>c. fold (\<lambda>name. ensure_property name (FloatV 0)) (external_fluxes c) c),
          assign (\<lambda>c. fold (\<lambda>name. ensure_property name (FloatV 0)) (offset_charges c) c),
          assign (\<lambda>c. if length (flatten_list (map snd (var_categories c))) = 1
                           \<and> ext_basis c = ''harmonic''
                       then c\<lparr>type_of_matrices := ''dense''\<rparr> else c)]"

text \<open>
  \<open>Circuit._clear_unnecessary_attribs\<close>, on the property slots: the slot of \<open>name\<close> is
  the attribute \<open>"_" + name\<close>, so \<open>attrib[1:]\<close> is \<open>name\<close> and \<open>attrib[1:3]\<close> its first
  two characters. No other attribute of an instance has a name that the four tests
  select.
\<close>

definition clear_unnecessary_attribs :: "Circuit \<Rightarrow> Circuit" where
  "clear_unnecessary_attribs c =
     (let necessary_attrib_names =
            cutoff_names c @ external_fluxes c @ offset_charges c @ [''cutoff_names'']
      in c\<lparr>attrs :=
             filter (\<lambda>(name, v).
                       \<not> (name \<notin> set necessary_attrib_names
                          \<and> (contains_str ''cutoff_n_'' (CHR ''_'' # name)
                             \<or> contains_str Phi (CHR ''_'' # name)
                             \<or> contains_str ''cutoff_ext_'' (CHR ''_'' # name)
                             \<or> take 2 name = ''ng'')))
               (attrs c)\<rparr>)"

text \<open>
  The end of both functions, lines 1144 to 1173 of \<open>_configure\<close> and 965 to 993 of
  \<open>_configure_sym_hamiltonian\<close>; only the first calls \<open>update_interactions\<close>. \<open>sh\<close> and
  \<open>std\<close> are the local variables \<open>system_hierarchy\<close> and \<open>subsystem_trunc_dims\<close>.
\<close>

definition set_subsystem_trunc_dims :: "rlist list option \<Rightarrow> step" where
  "set_subsystem_trunc_dims std c =
     (case std of
        None \<Rightarrow> raise TruncDimsNotSet c
      | Some t \<Rightarrow> assign (\<lambda>c. c\<lparr>subsystem_trunc_dims := std\<rparr>) c)"

definition flat_branch :: "env \<Rightarrow> step" where
  "flat_branch E = run [call E GenerateHamiltonianSymForNumerics, call E SetOperators]"

definition hierarchical_branch ::
  "env \<Rightarrow> bool \<Rightarrow> rlist list option \<Rightarrow> rlist list option \<Rightarrow> step" where
  "hierarchical_branch E with_interactions sh std =
     run ([assign (\<lambda>c. c\<lparr>system_hierarchy := sh\<rparr>),
           set_subsystem_trunc_dims std,
           call E GenerateHamiltonianSymForNumerics,
           call E GenerateSubsystems]
          @ (if with_interactions then [call E UpdateInteractions] else [])
          @ [call E CheckTruncationIndices, call E SetOperators])"

definition requires_hierarchical_diagonalization :: "rlist list \<Rightarrow> bool" where
  "requires_hierarchical_diagonalization h = (h \<noteq> [] \<and> number_of_lists_in_list h > 0)"

definition finish_configure ::
  "env \<Rightarrow> bool \<Rightarrow> rlist list option \<Rightarrow> rlist list option \<Rightarrow> step" where
  "finish_configure E with_interactions sh std =
     run [assign (\<lambda>c. case sh of
                         None \<Rightarrow> c
                       | Some h \<Rightarrow> c\<lparr>hierarchical_diagonalization :=
                                      requires_hierarchical_diagonalization h\<rparr>),
          (\<lambda>c. if \<not> hierarchical_diagonalization c then flat_branch E c
                else hierarchical_branch E with_interactions sh std c),
          assign clear_unnecessary_attribs,
          assign (\<lambda>c. c\<lparr>frozen := True\<rparr>),
          call E Update]"

text \<open>
  \<open>SymbolicCircuit.configure\<close> and the copy of its attributes, lines 1043 to 1069. An
  exception of the symbolic circuit leaves the instance's own attributes as they were.
\<close>

definition configure_symbolic_circuit ::
  "env \<Rightarrow> tmatrix option \<Rightarrow> Branch option list option \<Rightarrow> step" where
  "configure_symbolic_circuit E tm cb c =
     (case symbolic_circuit c of
        None \<Rightarrow> (Some (AttributeError ''symbolic_circuit''), c)
      | Some sc \<Rightarrow>
          (case sc_configure E tm cb sc of
             (Some e, sc') \<Rightarrow> (Some e, c\<lparr>symbolic_circuit := Some sc'\<rparr>)
           | (None, sc') \<Rightarrow>
               (None, c\<lparr>symbolic_circuit := Some sc',
                        closure_branches := Some (sc_closure_branches sc'),
                        external_fluxes := sc_external_fluxes sc',
                        hamiltonian_symbolic := sc_hamiltonian_symbolic sc',
                        offset_charges := sc_offset_charges sc',
                        symbolic_params := sc_symbolic_params sc',
                        transformation_matrix := Some (sc_transformation_matrix sc'),
                        var_categories := sc_var_categories sc',
                        is_purely_harmonic := sc_is_purely_harmonic sc'\<rparr>)))"

text \<open>
  \<open>Circuit._configure\<close>. The four local variables are computed on entry; \<open>None\<close> for
  the transformation matrix is replaced by the attribute, which exists on every
  instance with a symbolic circuit.
\<close>

definition Circuit__configure ::
  "env \<Rightarrow> tmatrix option \<Rightarrow> rlist list option \<Rightarrow> rlist list option
     \<Rightarrow> Branch option list option \<Rightarrow> step" where
  "Circuit__configure E tm0 sh0 std0 cb0 c0 =
     (let sh = py_or sh0 (system_hierarchy c0);
          std = py_or std0 (subsystem_trunc_dims c0);
          cb = py_or cb0 (map_option (map Some) (closure_branches c0));
          tm = (case tm0 of None \<Rightarrow> transformation_matrix c0 | Some m \<Rightarrow> Some m)
      in run [assign (\<lambda>c. c\<lparr>frozen := False\<rparr>),
              assign (\<lambda>c. c\<lparr>hierarchical_diagonalization := (sh \<noteq> None)\<rparr>),
              configure_symbolic_circuit E tm cb,
              harmonic_override E,
              init_properties,
              call E SetVars,
              run_if (\<lambda>c. sc_node_count (the (symbolic_circuit c)) > SYM_INVERSION_MAX_NODES E)
                (call E GenerateSymbolicHamiltonian),
              run_if (\<lambda>c. \<not> sc_is_flux_dynamic (the (symbolic_circuit c)))
                (call E ShiftHarmonicOscillatorPotential),
              finish_configure E True sh std] c0)"

definition Circuit__configure_sym_hamiltonian ::
  "env \<Rightarrow> rlist list option \<Rightarrow> rlist list option \<Rightarrow> step" where
  "Circuit__configure_sym_hamiltonian E sh0 std0 c0 =
     (let sh = py_or sh0 (system_hierarchy c0);
          std = py_or std0 (subsystem_trunc_dims c0)
      in run [assign (\<lambda>c. c\<lparr>frozen := False\<rparr>),
              assign (\<lambda>c. c\<lparr>hierarchical_diagonalization := (sh \<noteq> None)\<rparr>),
              assign (\<lambda>c. c\<lparr>is_purely_harmonic := purely_harmonic (hamiltonian_symbolic c)\<rparr>),
              assign (\<lambda>c. case read_symbolic_hamiltonian (hamiltonian_symbolic c) of
                             (fluxes, charges, cats) \<Rightarrow>
                               c\<lparr>external_fluxes := fluxes, offset_charges := charges,
                                 var_categories := cats\<rparr>),
              harmonic_override E,
              init_properties,
              call E SetVars,
              finish_configure E False sh std] c0)"

section \<open>Circuit.configure (circuit.py)\<close>

text \<open>
  The bare \<open>except\<close> catches every exception of the first attempt, resets the four
  attributes, configures again with the old values and raises \<open>RuntimeError\<close>; an
  exception of the second attempt leaves the handler in its place.
\<close>

definition Circuit_configure ::
  "env \<Rightarrow> tmatrix option \<Rightarrow> rlist list option \<Rightarrow> rlist list option
     \<Rightarrow> Branch option list option \<Rightarrow> step" where
  "Circuit_configure E tm sh std cb c =
     (let old_system_hierarchy = system_hierarchy c;
          old_subsystem_trunc_dims = subsystem_trunc_dims c;
          old_transformation_matrix = transformation_matrix c;
          old_closure_branches =
            (case symbolic_circuit c of
               None \<Rightarrow> None
             | Some sc \<Rightarrow> if \<not> sc_is_flux_dynamic sc then closure_branches c else None)
      in case (if symbolic_circuit c \<noteq> None then Circuit__configure E tm sh std cb c
               else Circuit__configure_sym_hamiltonian E sh std c) of
           (None, c1) \<Rightarrow> (None, c1)
         | (Some e, c1) \<Rightarrow>
             (let c2 = c1\<lparr>system_hierarchy := old_system_hierarchy,
                          subsystem_trunc_dims := old_subsystem_trunc_dims\<rparr>;
                  c3 = (if symbolic_circuit c2 \<noteq> None
                        then c2\<lparr>transformation_matrix := old_transformation_matrix,
                                closure_branches := old_closure_branches\<rparr>
                        else c2)
              in case (if symbolic_circuit c3 \<noteq> None
                       then Circuit__configure E old_transformation_matrix old_system_hierarchy
                              old_subsystem_trunc_dims
                              (map_option (map Some) old_closure_branches) c3
                       else Circuit__configure_sym_hamiltonian E old_system_hierarchy
                              old_subsystem_trunc_dims c3) of
                   (Some e', c4) \<Rightarrow> (Some e', c4)
                 | (None, c4) \<Rightarrow> (Some ConfigureFailed, c4)))"

section \<open>Circuit.\_\_init\_\_ from a circuit description (circuit.py)\<close>

text \<open>
  \<open>Circuit._init_from_yaml\<close>. An exception leaves no instance behind, so the result is
  the exception or the instance.
\<close>

definition Circuit_init_from_yaml ::
  "env \<Rightarrow> string \<Rightarrow> bool \<Rightarrow> string \<Rightarrow> string \<Rightarrow> bool \<Rightarrow> bool \<Rightarrow> int option
     \<Rightarrow> error + Circuit" where
  "Circuit_init_from_yaml E input_string from_file basis_completion ext_basis' is_flux_dynamic
       initiate_sym_calc truncated_dim' =
     (if basis_completion \<notin> {''heuristic'', ''canonical''} then Inl InvalidBasisCompletion
      else case sc_from_yaml E input_string from_file basis_completion is_flux_dynamic of
        Inl e \<Rightarrow> Inl e
      | Inr sc \<Rightarrow>
          (case (if initiate_sym_calc then Circuit_configure E None None None None
                 else assign (\<lambda>c. c))
                  \<lparr>is_child = False,
                   frozen = False,
                   symbolic_circuit = Some sc,
                   hamiltonian_symbolic = sc_hamiltonian_symbolic sc,
                   ext_basis = ext_basis',
                   truncated_dim = truncated_dim',
                   system_hierarchy = None,
                   subsystem_trunc_dims = None,
                   transformation_matrix = Some (sc_transformation_matrix sc),
                   closure_branches = Some (sc_closure_branches sc),
                   external_fluxes = sc_external_fluxes sc,
                   offset_charges = sc_offset_charges sc,
                   symbolic_params = sc_symbolic_params sc,
                   var_categories = sc_var_categories sc,
                   var_index_list = [],
                   is_purely_harmonic = False,
                   hierarchical_diagonalization = False,
                   cutoff_names = [],
                   attrs = [],
                   discretized_phi_range = [],
                   type_of_matrices = ''sparse'',
                   warnings = [],
                   derived = 0\<rparr> of
             (Some e, c) \<Rightarrow> Inl e
           | (None, c) \<Rightarrow>
               (case call E RegisterCircuitUpdate (c\<lparr>frozen := True\<rparr>) of
                  (Some e, c') \<Rightarrow> Inl e
                | (None, c') \<Rightarrow> Inr c')))"

section \<open>Serialization (circuit.py)\<close>

text \<open>
  The dictionary of \<open>dict_for_serialization\<close>. The entry \<open>closure_branches_data\<close> of
  the modified attributes, which \<open>deserialize\<close> takes out before it reads the others,
  is a field of its own. A symbolic parameter of a branch and its name are both
  written \<open>Symbol name\<close>. \<open>serialize\<close> hands the dictionary to the serialization layer
  and \<open>deserialize\<close> gets it back from there; the layer is taken to return what it was
  given.
\<close>

record serialized =
  ser_ext_basis :: string
  ser_input_string :: string
  ser_truncated_dim :: "int option"
  ser_from_file :: bool
  ser_basis_completion :: string
  ser_modified_attributes :: "(string \<times> slot) list"
  ser_closure_branches_data :: "(int \<times> int \<times> string \<times> (string \<times> param) list) list"

definition dict_for_serialization :: "Circuit \<Rightarrow> error + serialized" where
  "dict_for_serialization c =
     (let modified_attrib_keys =
            map fst (symbolic_params c) @ external_fluxes c @ offset_charges c @ cutoff_names c
      in case filter (\<lambda>key. \<not> hasattr c key) modified_attrib_keys of
           key # keys \<Rightarrow> Inl (AttributeError key)
         | [] \<Rightarrow>
            (case symbolic_circuit c of
               None \<Rightarrow> Inl (AttributeError ''input_string'')
             | Some sc \<Rightarrow>
                (case closure_branches c of
                   None \<Rightarrow> Inl TypeError
                 | Some branches \<Rightarrow>
                     Inr \<lparr>ser_ext_basis = ext_basis c,
                          ser_input_string = sc_input_string sc,
                          ser_truncated_dim = truncated_dim c,
                          ser_from_file = False,
                          ser_basis_completion = sc_basis_completion sc,
                          ser_modified_attributes =
                            dict_set ''transformation_matrix'' (MatrixV (transformation_matrix c))
                              (dict_set ''subsystem_trunc_dims'' (HierarchyV (subsystem_trunc_dims c))
                                (dict_set ''system_hierarchy'' (HierarchyV (system_hierarchy c))
                                  (fold (\<lambda>key. dict_set key (the (map_of (attrs c) key)))
                                     modified_attrib_keys []))),
                          ser_closure_branches_data =
                            map (\<lambda>branch. (fst (node_ids branch), snd (node_ids branch),
                                            branch_type branch, parameters branch))
                              branches\<rparr>)))"

definition serialize :: "Circuit \<Rightarrow> error + serialized" where
  "serialize c = dict_for_serialization c"

text \<open>\<open>Circuit._find_branch\<close>; two parameter dictionaries are equal as sets of items.\<close>

definition find_branch ::
  "Circuit \<Rightarrow> int \<times> int \<times> string \<times> (string \<times> param) list \<Rightarrow> Branch option" where
  "find_branch c branch_data =
     (case branch_data of (node_id_1, node_id_2, type_name, branch_params) \<Rightarrow>
        find (\<lambda>branch.
                \<not> (node_id_1 \<notin> {fst (node_ids branch), snd (node_ids branch)}
                   \<or> node_id_2 \<notin> {fst (node_ids branch), snd (node_ids branch)})
                \<and> \<not> branch_type branch \<noteq> type_name
                \<and> \<not> set branch_params \<noteq> set (parameters branch))
          (case symbolic_circuit c of None \<Rightarrow> [] | Some sc \<Rightarrow> sc_branches sc))"

text \<open>
  \<open>Circuit.deserialize\<close>. The instance is built with the serialized constructor
  arguments (\<open>is_flux_dynamic\<close> and \<open>initiate_sym_calc\<close> keep their defaults), configured
  with the closure branches and with the entries of \<open>configure_attribs\<close>, which are
  \<open>system_hierarchy\<close> and \<open>subsystem_trunc_dims\<close> (the entry \<open>transformation_matrix\<close> of
  that list is commented out in the source); every other modified attribute is written
  to its slot \<open>"_" + name\<close>.
\<close>

definition deserialize :: "env \<Rightarrow> serialized \<Rightarrow> error + Circuit" where
  "deserialize E iodata =
     (case Circuit_init_from_yaml E (ser_input_string iodata) (ser_from_file iodata)
             (ser_basis_completion iodata) (ser_ext_basis iodata) False True
             (ser_truncated_dim iodata) of
        Inl e \<Rightarrow> Inl e
      | Inr circuit \<Rightarrow>
          (let modified_attributes = ser_modified_attributes iodata;
               branches = map (find_branch circuit) (ser_closure_branches_data iodata);
               configure_attribs =
                 filter (\<lambda>attrib. has_key attrib modified_attributes)
                   [''system_hierarchy'', ''subsystem_trunc_dims''];
               argument = (\<lambda>key. if key \<in> set configure_attribs
                                  then (case map_of modified_attributes key of
                                          Some (HierarchyV h) \<Rightarrow> h
                                        | _ \<Rightarrow> None)
                                  else None)
           in case Circuit_configure E None (argument ''system_hierarchy'')
                     (argument ''subsystem_trunc_dims'') (Some branches) circuit of
                (Some e, c1) \<Rightarrow> Inl e
              | (None, c1) \<Rightarrow>
                  (case run_if hierarchical_diagonalization
                          (run [call E GenerateSubsystems, call E UpdateInteractions])
                          (fold (\<lambda>(attrib, v) c.
                                   if attrib \<notin> set configure_attribs then make_property attrib v c
                                   else c)
                             modified_attributes c1) of
                     (Some e, c2) \<Rightarrow> Inl e
                   | (None, c2) \<Rightarrow> Inr c2)))"

section \<open>Example circuits\<close>

text \<open>
  Stand-ins for the collaborators, to evaluate the model on examples. \<open>from_yaml\<close>
  yields the given symbolic circuit with the requested settings. \<open>configure\<close> follows
  the parameter description of \<open>Circuit.configure\<close>: the transformation matrix is the
  user's when one is given, and the closure branches are the given ones, "by default
  None which then chooses closure branches by an internally generated spanning tree";
  here the defaults are those of the given symbolic circuit. No routine raises.
\<close>

definition example_env :: "SymbolicCircuit \<Rightarrow> env" where
  "example_env sc0 =
     \<lparr>sc_from_yaml = (\<lambda>input_string from_file basis_completion is_flux_dynamic.
          Inr (sc0\<lparr>sc_input_string := input_string, sc_basis_completion := basis_completion,
                  sc_is_flux_dynamic := is_flux_dynamic\<rparr>)),
      sc_configure = (\<lambda>tm cb sc.
          (None, sc\<lparr>sc_transformation_matrix :=
                      (case tm of None \<Rightarrow> sc_transformation_matrix sc0 | Some m \<Rightarrow> m),
                    sc_closure_branches :=
                      (case cb of
                         Some (b # bs) \<Rightarrow> List.map_filter (\<lambda>x. x) (b # bs)
                       | _ \<Rightarrow> sc_closure_branches sc0)\<rparr>)),
      run_routine = (\<lambda>r c. (None, derived c)),
      SYM_INVERSION_MAX_NODES = 3\<rparr>"

text \<open>The letter \<open>\<theta>\<close> (U+03B8) of the angle variables, in UTF-8.\<close>

definition Theta :: string where
  "Theta = [CHR 0xCE, CHR 0xB8]"

text \<open>
  A Josephson junction with a capacitor (variable 1, periodic) coupled through a
  capacitor to an LC resonator (variable 2, extended).
\<close>

definition transmon_resonator :: SymbolicCircuit where
  "transmon_resonator =
     \<lparr>sc_input_string = ''branches: JJ 0 1, C 0 1, C 1 2, L 0 2, C 0 2'',
      sc_basis_completion = ''heuristic'',
      sc_is_flux_dynamic = False,
      sc_node_count = 2,
      sc_branches =
        [\<lparr>node_ids = (0, 1), branch_type = ''JJ'',
          parameters = [(''EJ'', Symbol ''EJ''), (''ECJ'', Number 3)]\<rparr>,
         \<lparr>node_ids = (1, 2), branch_type = ''C'', parameters = [(''EC'', Symbol ''ECg'')]\<rparr>,
         \<lparr>node_ids = (0, 2), branch_type = ''L'', parameters = [(''EL'', Symbol ''EL'')]\<rparr>,
         \<lparr>node_ids = (0, 2), branch_type = ''C'', parameters = [(''EC'', Symbol ''EC'')]\<rparr>],
      sc_closure_branches = [],
      sc_external_fluxes = [],
      sc_offset_charges = [''ng1''],
      sc_symbolic_params = [(''EJ'', 20), (''ECg'', 5), (''EL'', 10), (''EC'', 1)],
      sc_hamiltonian_symbolic =
        \<lparr>free_symbols = [''EJ'', ''ECg'', ''EL'', ''EC'', ''ng1'', ''n1'', Theta @ ''1'',
                          ''Q2'', Theta @ ''2''],
         operator_names = [''n1'', Theta @ ''1'', ''Q2'', Theta @ ''2''],
         purely_harmonic = False\<rparr>,
      sc_transformation_matrix = [[1, 0], [0, 1]],
      sc_var_categories =
        [(''periodic'', [1]), (''extended'', [2]), (''free'', []), (''frozen'', [])],
      sc_is_purely_harmonic = False\<rparr>"

text \<open>The part of its Hamiltonian on variable 2: the resonator alone, a quadratic form.\<close>

definition resonator_hamiltonian :: expr where
  "resonator_hamiltonian =
     \<lparr>free_symbols = [''EL'', ''EC'', ''Q2'', Theta @ ''2''],
      operator_names = [''Q2'', Theta @ ''2''],
      purely_harmonic = True\<rparr>"

text \<open>
  A Hamiltonian in one operator of variable 2 and one operator whose name is \<open>n1\<close>
  followed by a newline.
\<close>

definition newline_hamiltonian :: expr where
  "newline_hamiltonian =
     \<lparr>free_symbols = [''EL'', ''EC'', ''Q2'', ''n1'' @ [newline]],
      operator_names = [''Q2'', ''n1'' @ [newline]],
      purely_harmonic = False\<rparr>"

text \<open>An LC oscillator: one extended variable, no junction.\<close>

definition lc_oscillator :: SymbolicCircuit where
  "lc_oscillator =
     \<lparr>sc_input_string = ''branches: L 0 1, C 0 1'',
      sc_basis_completion = ''heuristic'',
      sc_is_flux_dynamic = False,
      sc_node_count = 1,
      sc_branches =
        [\<lparr>node_ids = (0, 1), branch_type = ''L'', parameters = [(''EL'', Symbol ''EL'')]\<rparr>,
         \<lparr>node_ids = (0, 1), branch_type = ''C'', parameters = [(''EC'', Symbol ''EC'')]\<rparr>],
      sc_closure_branches = [],
      sc_external_fluxes = [],
      sc_offset_charges = [],
      sc_symbolic_params = [(''EL'', 10), (''EC'', 1)],
      sc_hamiltonian_symbolic =
        \<lparr>free_symbols = [''EL'', ''EC'', ''Q1'', Theta @ ''1''],
         operator_names = [''Q1'', Theta @ ''1''],
         purely_harmonic = True\<rparr>,
      sc_transformation_matrix = [[1]],
      sc_var_categories =
        [(''periodic'', []), (''extended'', [1]), (''free'', []), (''frozen'', [])],
      sc_is_purely_harmonic = True\<rparr>"

text \<open>
  The circuit that the constructor builds from the first description, with the
  discretized basis, and the grid on which the sine factory is evaluated below.
\<close>

definition transmon_resonator_circuit :: Circuit where
  "transmon_resonator_circuit =
     projr (Circuit_init_from_yaml (example_env transmon_resonator)
              (sc_input_string transmon_resonator) False ''heuristic'' ''discretized'' False True
              (Some 10))"

definition unit_grid :: Grid1d where
  "unit_grid = \<lparr>min_val = 0, max_val = 1, pt_count = 2\<rparr>"


text \<open>
  The first circuit after \<open>configure(transformation_matrix=[[1, 1], [0, 1]])\<close>, and after
  \<open>configure(system_hierarchy=[[1], [2]], subsystem_trunc_dims=[3, 3])\<close>.
\<close>

definition transformed_circuit :: Circuit where
  "transformed_circuit =
     snd (Circuit_configure (example_env transmon_resonator) (Some [[1, 1], [0, 1]])
            None None None transmon_resonator_circuit)"

definition hierarchical_circuit :: Circuit where
  "hierarchical_circuit =
     snd (Circuit_configure (example_env transmon_resonator) None
            (Some [Lst [Idx 1], Lst [Idx 2]]) (Some [Idx 3, Idx 3]) None
            transmon_resonator_circuit)"

section \<open>Facts about the matrix operations\<close>

lemma matrix_of_dims:
  "length (matrix_of m n f) = m"
  "i < m \<Longrightarrow> length (matrix_of m n f ! i) = n"
  "i < m \<Longrightarrow> j < n \<Longrightarrow> matrix_of m n f ! i ! j = f i j"
  unfolding matrix_of_def by simp_all

lemma matrix_of_add:
  "mat_add (matrix_of m n f) (matrix_of m n g) = matrix_of m n (\<lambda>i j. f i j + g i j)"
  unfolding mat_add_def matrix_of_def
  by (simp add: zip_map_map list_eq_iff_nth_eq)

lemma matrix_of_sub:
  "mat_sub (matrix_of m n f) (matrix_of m n g) = matrix_of m n (\<lambda>i j. f i j - g i j)"
  unfolding mat_sub_def matrix_of_def
  by (simp add: zip_map_map list_eq_iff_nth_eq)

lemma matrix_of_scale:
  "mat_scale c (matrix_of m n f) = matrix_of m n (\<lambda>i j. c * f i j)"
  unfolding mat_scale_def matrix_of_def by simp

lemma matrix_of_map:
  "map (map h) (matrix_of m n f) = matrix_of m n (\<lambda>i j. h (f i j))"
  unfolding matrix_of_def by simp

lemma matrix_of_cong:
  "(\<And>i j. i < m \<Longrightarrow> j < n \<Longrightarrow> f i j = g i j) \<Longrightarrow> matrix_of m n f = matrix_of m n g"
  unfolding matrix_of_def by simp

lemma setdiag_matrix_of:
  assumes "length vs = n"
  shows "setdiag vs (matrix_of n n (\<lambda>i j. 0)) = matrix_of n n (\<lambda>i j. if i = j then vs ! i else 0)"
  using assms unfolding setdiag_def matrix_of_def
  by (auto simp: list_eq_iff_nth_eq nth_list_update)

lemma diagonal_matrix_of:
  "diagonal (matrix_of n n f) = map (\<lambda>i. f i i) [0..<n]"
proof -
  have "filter (\<lambda>i. i < length (matrix_of n n f ! i)) [0..<n] = [0..<n]"
    by (rule filter_True) (simp add: matrix_of_dims)
  then show ?thesis
    unfolding diagonal_def by (simp add: matrix_of_dims)
qed

section \<open>Periodic variable: the operators in closed form\<close>

lemma n_theta_operator_entries:
  assumes "0 \<le> n"
  shows "n_theta_operator n =
           Inr (matrix_of (nat (2 * n + 1)) (nat (2 * n + 1)) (\<lambda>i j. if i = j then int i - n else 0))"
  using assms unfolding n_theta_operator_def dia_matrix_def Let_def
  by (auto intro!: matrix_of_cong simp: np_arange_def)

lemma exp_i_theta_operator_entries:
  assumes "0 \<le> n"
  shows "exp_i_theta_operator n =
           Inr (matrix_of (nat (2 * n + 1)) (nat (2 * n + 1)) (\<lambda>i j. if j = i + 1 then 1 else 0))"
  using assms unfolding exp_i_theta_operator_def dia_matrix_def Let_def np_ones_def
  by (auto intro!: matrix_of_cong)

lemma exp_i_theta_operator_conjugate_entries:
  assumes "0 \<le> n"
  shows "exp_i_theta_operator_conjugate n =
           Inr (matrix_of (nat (2 * n + 1)) (nat (2 * n + 1)) (\<lambda>i j. if i = j + 1 then 1 else 0))"
  using assms unfolding exp_i_theta_operator_conjugate_def dia_matrix_def Let_def np_ones_def
  by (auto intro!: matrix_of_cong)

lemma cos_theta_entries:
  assumes "0 \<le> n"
  shows "cos_theta n =
           Inr (matrix_of (nat (2 * n + 1)) (nat (2 * n + 1))
                  (\<lambda>i j. if j = i + 1 \<or> i = j + 1 then 1 / 2 else 0))"
  unfolding cos_theta_def exp_i_theta_operator_entries[OF assms]
    exp_i_theta_operator_conjugate_entries[OF assms]
  by (auto simp: matrix_of_add matrix_of_scale intro!: matrix_of_cong)

lemma sin_theta_entries:
  assumes "0 \<le> n"
  shows "sin_theta n =
           Inr (matrix_of (nat (2 * n + 1)) (nat (2 * n + 1))
                  (\<lambda>i j. if j = i + 1 then - \<i> / 2 else if i = j + 1 then \<i> / 2 else 0))"
  unfolding sin_theta_def exp_i_theta_operator_entries[OF assms]
    exp_i_theta_operator_conjugate_entries[OF assms]
  by (auto simp: matrix_of_sub matrix_of_scale matrix_of_map intro!: matrix_of_cong)

text \<open>
  Claim C3. For every cutoff \<open>ncut \<ge> 0\<close> of a periodic variable, with
  \<open>d = 2 * ncut + 1\<close>: the identity operator is the \<open>d \<times> d\<close> identity; the charge
  operator is the \<open>d \<times> d\<close> diagonal matrix whose \<open>i\<close>-th diagonal entry is \<open>i - ncut\<close>,
  that is the integers \<open>-ncut, ..., ncut\<close>; the two trigonometric generators are the
  \<open>d \<times> d\<close> matrices with ones exactly on the diagonal at offset \<open>+1\<close> (column = row + 1)
  and at offset \<open>-1\<close> (row = column + 1); the cosine operator is half the sum of the two
  generators and the sine operator is \<open>-\<i>/2\<close> times their difference, so that the
  cosine has \<open>1/2\<close> on both off-diagonals and the sine has \<open>-\<i>/2\<close> on the upper and
  \<open>\<i>/2\<close> on the lower one.
\<close>

theorem periodic_operators:
  assumes "0 \<le> ncut"
  shows "(let d = nat (2 * ncut + 1) in
          identity_theta ncut = Inr (matrix_of d d (\<lambda>i j. if i = j then 1 else 0))
        \<and> n_theta_operator ncut = Inr (matrix_of d d (\<lambda>i j. if i = j then int i - ncut else 0))
        \<and> map (\<lambda>i. int i - ncut) [0..<d] = [- ncut..ncut]
        \<and> exp_i_theta_operator ncut = Inr (matrix_of d d (\<lambda>i j. if j = i + 1 then 1 else 0))
        \<and> exp_i_theta_operator_conjugate ncut
            = Inr (matrix_of d d (\<lambda>i j. if i = j + 1 then 1 else 0))
        \<and> (\<exists>ep em. exp_i_theta_operator ncut = Inr ep
              \<and> exp_i_theta_operator_conjugate ncut = Inr em
              \<and> cos_theta ncut = Inr (mat_scale (1 / 2) (mat_add ep em))
              \<and> sin_theta ncut
                  = Inr (mat_scale (- \<i> / 2) (map (map complex_of_real) (mat_sub ep em))))
        \<and> cos_theta ncut
            = Inr (matrix_of d d (\<lambda>i j. if j = i + 1 \<or> i = j + 1 then 1 / 2 else 0))
        \<and> sin_theta ncut
            = Inr (matrix_of d d
                (\<lambda>i j. if j = i + 1 then - \<i> / 2 else if i = j + 1 then \<i> / 2 else 0)))"
proof -
  have ident: "identity_theta ncut
      = Inr (matrix_of (nat (2 * ncut + 1)) (nat (2 * ncut + 1)) (\<lambda>i j. if i = j then 1 else 0))"
    using assms unfolding identity_theta_def sparse_identity_def Let_def by simp
  have range: "map (\<lambda>i. int i - ncut) [0..<nat (2 * ncut + 1)] = [- ncut..ncut]"
    using assms by (auto simp: list_eq_iff_nth_eq)
  have trig: "\<exists>ep em. exp_i_theta_operator ncut = Inr ep
              \<and> exp_i_theta_operator_conjugate ncut = Inr em
              \<and> cos_theta ncut = Inr (mat_scale (1 / 2) (mat_add ep em))
              \<and> sin_theta ncut
                  = Inr (mat_scale (- \<i> / 2) (map (map complex_of_real) (mat_sub ep em)))"
    unfolding cos_theta_def sin_theta_def exp_i_theta_operator_entries[OF assms]
      exp_i_theta_operator_conjugate_entries[OF assms]
    by simp
  show ?thesis
    unfolding Let_def
    using ident range trig n_theta_operator_entries[OF assms]
      exp_i_theta_operator_entries[OF assms] exp_i_theta_operator_conjugate_entries[OF assms]
      cos_theta_entries[OF assms] sin_theta_entries[OF assms]
    by blast
qed

theorem periodic_operators_witness:
  "(0::int) \<le> 1
   \<and> identity_theta 1 = Inr [[1, 0, 0], [0, 1, 0], [0, 0, 1]]
   \<and> n_theta_operator 1 = Inr [[- 1, 0, 0], [0, 0, 0], [0, 0, 1]]
   \<and> exp_i_theta_operator 1 = Inr [[0, 1, 0], [0, 0, 1], [0, 0, 0]]
   \<and> exp_i_theta_operator_conjugate 1 = Inr [[0, 0, 0], [1, 0, 0], [0, 1, 0]]
   \<and> cos_theta 1 = Inr [[0, 1 / 2, 0], [1 / 2, 0, 1 / 2], [0, 1 / 2, 0]]
   \<and> sin_theta 1 = Inr [[0, - \<i> / 2, 0], [\<i> / 2, 0, - \<i> / 2], [0, \<i> / 2, 0]]"
  using periodic_operators [of 1]
  by (simp add: matrix_of_def upt_rec numeral_eq_Suc)

section \<open>Facts about dictionaries\<close>

lemma map_of_overwrite:
  "map_of (map (\<lambda>(k', v'). if k' = k then (k', v) else (k', v')) d) x
     = (if x = k then map_option (\<lambda>u. v) (map_of d k) else map_of d x)"
  by (induction d) auto

lemma map_of_dict_set: "map_of (dict_set k v d) = (map_of d)(k \<mapsto> v)"
proof (cases "k \<in> fst ` set d")
  case False
  then have "map_of d k = None" by (simp add: map_of_eq_None_iff)
  then show ?thesis
    using False unfolding dict_set_def by (auto simp: map_add_def fun_eq_iff split: option.splits)
next
  case True
  then obtain u where "map_of d k = Some u"
    by (metis map_of_eq_None_iff not_Some_eq)
  with True show ?thesis
    unfolding dict_set_def by (auto simp: fun_eq_iff map_of_overwrite)
qed

lemma map_of_fold_dict_set:
  "map_of (fold (\<lambda>k d. dict_set k (g k) d) ks d0) k
     = (if k \<in> set ks then Some (g k) else map_of d0 k)"
  by (induction ks arbitrary: d0) (auto simp: map_of_dict_set)

section \<open>Facts about statements\<close>

lemma run_preserves:
  assumes "\<And>s c x c'. s \<in> set steps \<Longrightarrow> P c \<Longrightarrow> s c = (x, c') \<Longrightarrow> P c'"
    and "P c" and "run steps c = (x, c')"
  shows "P c'"
  using assms
proof (induction steps arbitrary: c)
  case Nil
  then show ?case by simp
next
  case (Cons s steps)
  obtain y c1 where s: "s c = (y, c1)" by (cases "s c")
  have 1: "P c1" using Cons.prems(1)[of s c y c1] Cons.prems(2) s by simp
  show ?case
  proof (cases y)
    case None
    then have "run steps c1 = (x, c')" using Cons.prems(3) s by simp
    then show ?thesis using Cons.IH[of c1] Cons.prems(1) 1 by auto
  next
    case (Some e)
    then have "c' = c1" using Cons.prems(3) s by simp
    with 1 show ?thesis by simp
  qed
qed




lemma preservesD: "preserves P s \<Longrightarrow> P c \<Longrightarrow> s c = (x, c') \<Longrightarrow> P c'"
  unfolding preserves_def by blast

lemma preservesI: "(\<And>c x c'. P c \<Longrightarrow> s c = (x, c') \<Longrightarrow> P c') \<Longrightarrow> preserves P s"
  unfolding preserves_def by blast

lemma preserves_assign:
  assumes "\<And>c. P c \<Longrightarrow> P (f c)"
  shows "preserves P (assign f)"
proof (rule preservesI)
  fix c x c'
  assume p: "P c" and e: "assign f c = (x, c')"
  from e have "c' = f c" by (simp add: assign_def)
  with assms[OF p] show "P c'" by simp
qed

lemma preserves_raise: "preserves P (raise e)"
proof (rule preservesI)
  fix c x c'
  assume p: "P c" and e: "raise e c = (x, c')"
  from e have "c' = c" by (simp add: raise_def)
  with p show "P c'" by simp
qed

lemma preserves_call:
  assumes "\<And>c d. P c \<Longrightarrow> P (c\<lparr>derived := d\<rparr>)"
  shows "preserves P (call E r)"
proof (rule preservesI)
  fix c x c'
  assume p: "P c" and e: "call E r c = (x, c')"
  obtain y d where "run_routine E r c = (y, d)" by (cases "run_routine E r c")
  with e have "c' = c\<lparr>derived := d\<rparr>" by (simp add: call_def)
  with assms[OF p] show "P c'" by simp
qed

lemma preserves_run:
  assumes "\<And>s. s \<in> set steps \<Longrightarrow> preserves P s"
  shows "preserves P (run steps)"
proof (rule preservesI)
  fix c x c'
  assume p: "P c" and r: "run steps c = (x, c')"
  show "P c'"
  proof (rule run_preserves[where P=P, OF _ p r])
    fix s c1 y c2
    assume "s \<in> set steps" "P c1" "s c1 = (y, c2)"
    then show "P c2" using assms preservesD by blast
  qed
qed

lemma preserves_run_if:
  assumes "preserves P s"
  shows "preserves P (run_if b s)"
proof (rule preservesI)
  fix c x c'
  assume p: "P c" and e: "run_if b s c = (x, c')"
  show "P c'"
  proof (cases "b c")
    case True
    with e have "s c = (x, c')" by (simp add: run_if_def)
    with assms p show ?thesis by (rule preservesD)
  next
    case False
    with e have "c' = c" by (simp add: run_if_def)
    with p show ?thesis by simp
  qed
qed

lemma preserves_cond:
  assumes "preserves P s" "preserves P t"
  shows "preserves P (\<lambda>c. if b c then s c else t c)"
proof (rule preservesI)
  fix c x c'
  assume p: "P c" and e: "(if b c then s c else t c) = (x, c')"
  show "P c'"
  proof (cases "b c")
    case True
    with e have "s c = (x, c')" by simp
    with assms(1) p show ?thesis by (rule preservesD)
  next
    case False
    with e have "t c = (x, c')" by simp
    with assms(2) p show ?thesis by (rule preservesD)
  qed
qed

section \<open>Facts about symbol names\<close>

lemma search_digits_dollar_Some:
  assumes "search_digits_dollar s = Some m"
  shows "m \<noteq> [] \<and> (\<exists>pre. s = pre @ m \<or> s = pre @ m @ [newline])"
  using assms
proof (induction s)
  case Nil
  then show ?case by simp
next
  case (Cons c cs)
  show ?case
  proof (cases "takeWhile is_digit (c # cs) \<noteq> [] \<and> at_dollar (dropWhile is_digit (c # cs))")
    case True
    with Cons.prems have m: "m = takeWhile is_digit (c # cs)" by simp
    have "c # cs = takeWhile is_digit (c # cs) @ dropWhile is_digit (c # cs)" by simp
    with True m have d: "c # cs = [] @ m \<or> c # cs = [] @ m @ [newline]"
      unfolding at_dollar_def by (metis append_Nil append_Nil2)
    have ne: "m \<noteq> []" using True m by simp
    from d have "\<exists>pre. c # cs = pre @ m \<or> c # cs = pre @ m @ [newline]" by (rule exI)
    with ne show ?thesis by simp
  next
    case False
    with Cons.prems have "search_digits_dollar cs = Some m"
      by (simp del: takeWhile.simps dropWhile.simps)
    from Cons.IH[OF this] obtain pre where "m \<noteq> []" "cs = pre @ m \<or> cs = pre @ m @ [newline]"
      by blast
    then have "m \<noteq> [] \<and> (c # cs = (c # pre) @ m \<or> c # cs = (c # pre) @ m @ [newline])" by auto
    then show ?thesis by blast
  qed
qed

lemma search_digits_dollar_digits:
  "search_digits_dollar s = Some m \<Longrightarrow> list_all is_digit m"
proof (induction s)
  case Nil
  then show ?case by simp
next
  case (Cons c cs)
  then show ?case
    by (auto split: if_splits simp: list_all_iff dest: set_takeWhileD)
qed

text \<open>
  A name whose last character is an ASCII character other than a digit and a newline
  has no trailing number.
\<close>

lemma get_trailing_number_None:
  assumes "name = [] \<or> (of_char (last name) < (128::nat) \<and> \<not> is_digit (last name)
                          \<and> last name \<noteq> newline)"
  shows "get_trailing_number name = None"
proof (cases "search_digits_dollar name")
  case None
  then show ?thesis by (simp add: get_trailing_number_def)
next
  case (Some m)
  from search_digits_dollar_Some[OF Some] obtain pre
    where m: "m \<noteq> []" and s: "name = pre @ m \<or> name = pre @ m @ [newline]" by blast
  from search_digits_dollar_digits[OF Some] m have "is_digit (last m)"
    by (simp add: list_all_iff)
  with m s have "name \<noteq> [] \<and> (is_digit (last name) \<or> last name = newline)" by auto
  with assms show ?thesis by blast
qed

text \<open>
  On a name that does not end in a newline the search finds the digits at the end of
  the name, so \<open>get_trailing_number\<close> is the trailing integer index.
\<close>

lemma trailing_digits_all:
  "list_all is_digit xs \<Longrightarrow> takeWhile is_digit (rev xs) = rev xs"
  by (simp add: list_all_iff)

lemma trailing_digits_Cons:
  assumes "\<not> list_all is_digit (c # cs)"
  shows "takeWhile is_digit (rev (c # cs)) = takeWhile is_digit (rev cs)"
proof (cases "list_all is_digit cs")
  case True
  with assms have c: "\<not> is_digit c" by simp
  from True have all: "\<And>x. x \<in> set (rev cs) \<Longrightarrow> is_digit x" by (simp add: list_all_iff)
  have a: "takeWhile is_digit (rev cs @ [c]) = rev cs @ takeWhile is_digit [c]"
    by (rule takeWhile_append2) (rule all)
  have b: "takeWhile is_digit [c] = []" using c by simp
  have d: "takeWhile is_digit (rev cs) = rev cs"
    using all by (simp only: takeWhile_eq_all_conv) blast
  show ?thesis unfolding rev.simps a b d by simp
next
  case False
  then obtain x where "x \<in> set (rev cs)" "\<not> is_digit x" by (auto simp: list_all_iff)
  then show ?thesis by (simp add: takeWhile_append1)
qed

lemma at_dollar_dropWhile:
  assumes "last (c # cs) \<noteq> newline"
  shows "at_dollar (dropWhile is_digit (c # cs)) \<longleftrightarrow> list_all is_digit (c # cs)"
proof
  assume "at_dollar (dropWhile is_digit (c # cs))"
  then consider "dropWhile is_digit (c # cs) = []" | "dropWhile is_digit (c # cs) = [newline]"
    unfolding at_dollar_def by blast
  then show "list_all is_digit (c # cs)"
  proof cases
    case 1
    then show ?thesis by (simp only: dropWhile_eq_Nil_conv list_all_iff)
  next
    case 2
    have "takeWhile is_digit (c # cs) @ dropWhile is_digit (c # cs) = c # cs"
      by (rule takeWhile_dropWhile_id)
    then have "takeWhile is_digit (c # cs) @ [newline] = c # cs" by (simp only: 2)
    then have "last (c # cs) = newline" by (metis last_snoc)
    with assms show ?thesis by simp
  qed
next
  assume "list_all is_digit (c # cs)"
  then have "dropWhile is_digit (c # cs) = []"
    by (simp only: dropWhile_eq_Nil_conv list_all_iff)
  then show "at_dollar (dropWhile is_digit (c # cs))" unfolding at_dollar_def by simp
qed

lemma search_digits_dollar_trailing:
  assumes "name = [] \<or> last name \<noteq> newline"
  shows "search_digits_dollar name
           = (if takeWhile is_digit (rev name) = [] then None
              else Some (rev (takeWhile is_digit (rev name))))"
  using assms
proof (induction name)
  case Nil
  then show ?case by simp
next
  case (Cons c cs)
  then have nl: "last (c # cs) \<noteq> newline" by simp
  note dollar = at_dollar_dropWhile[OF nl]
  show ?case
  proof (cases "list_all is_digit (c # cs)")
    case True
    then have tw: "takeWhile is_digit (c # cs) = c # cs"
      by (simp only: takeWhile_eq_all_conv list_all_iff)
    from True dollar have at: "at_dollar (dropWhile is_digit (c # cs)) = True" by simp
    have s1: "search_digits_dollar (c # cs) = Some (c # cs)"
      by (simp only: search_digits_dollar.simps tw at) simp
    from trailing_digits_all[OF True]
    have s2: "takeWhile is_digit (rev (c # cs)) = rev (c # cs)" .
    show ?thesis unfolding s1 s2 by simp
  next
    case False
    with dollar have at: "at_dollar (dropWhile is_digit (c # cs)) = False" by simp
    have step: "search_digits_dollar (c # cs) = search_digits_dollar cs"
      by (simp only: search_digits_dollar.simps at) simp
    note tr = trailing_digits_Cons[OF False]
    show ?thesis
    proof (cases "cs = []")
      case True
      with False have "\<not> is_digit c" by simp
      with True show ?thesis by simp
    next
      case ne: False
      with nl have "last cs \<noteq> newline" by simp
      then have "search_digits_dollar cs
           = (if takeWhile is_digit (rev cs) = [] then None
              else Some (rev (takeWhile is_digit (rev cs))))"
        using Cons.IH by blast
      then show ?thesis unfolding step tr .
    qed
  qed
qed

text \<open>
  The second and third hypothesis keep the statement to the names on which the model
  and Python agree: no decimal digit outside ASCII, and no more digits than \<open>int\<close>
  accepts.
\<close>

lemma get_trailing_number_spec_trailing_index:
  assumes "name = [] \<or> last name \<noteq> newline"
    and "\<forall>ch \<in> set name. of_char ch < (0xC0::nat) \<or> ch = CHR 0xCE \<or> ch = CHR 0xCF"
    and "length name \<le> 4300"
  shows "get_trailing_number name = spec_trailing_index name"
  unfolding get_trailing_number_def spec_trailing_index_def Let_def
    search_digits_dollar_trailing[OF assms(1)]
  by simp

section \<open>Facts about Subsystem\<close>

lemma subsystem_var_categories_lookup:
  "map_of (subsystem_var_categories cats vil) t
     = map_option (filter (\<lambda>i. i \<in> set vil)) (map_of cats t)"
proof -
  have 1: "map_of (subsystem_var_categories cats vil) t
      = (if t \<in> set (map fst cats)
         then Some (filter (\<lambda>i. i \<in> set vil) (the (map_of cats t))) else None)"
    unfolding subsystem_var_categories_def by (simp add: map_of_fold_dict_set)
  show ?thesis
  proof (cases "map_of cats t")
    case None
    then have "t \<notin> set (map fst cats)" by (simp add: map_of_eq_None_iff)
    with None 1 show ?thesis by simp
  next
    case (Some a)
    then have "t \<in> set (map fst cats)" by (metis map_of_eq_None_iff option.distinct(1) set_map)
    with Some 1 show ?thesis by simp
  qed
qed

lemma set_fold_collect:
  "set (fold collect_var_index names acc)
     = set acc \<union> {i. \<exists>name \<in> set names. get_trailing_number name = Some i}"
proof (induction names arbitrary: acc)
  case Nil
  then show ?case by simp
next
  case (Cons n ns)
  show ?case
    unfolding fold_simps Cons.IH
    by (cases "get_trailing_number n") (auto simp: collect_var_index_def Let_def)
qed

lemma set_subsystem_var_index_list:
  "set (subsystem_var_index_list names)
     = {i. \<exists>name \<in> set names. get_trailing_number name = Some i}"
  unfolding subsystem_var_index_list_def by (simp add: set_fold_collect)

lemma preserves_inherit_property:
  assumes "\<And>c v. P c \<Longrightarrow> P (c\<lparr>attrs := v\<rparr>)"
  shows "preserves P (inherit_property parent name)"
proof (rule preservesI)
  fix c x c'
  assume p: "P c" and e: "inherit_property parent name c = (x, c')"
  show "P c'"
  proof (cases "map_of (attrs parent) name")
    case None
    with e have "c' = c" by (simp add: inherit_property_def)
    with p show ?thesis by simp
  next
    case (Some v)
    with e have "c' = c\<lparr>attrs := dict_set name v (attrs c)\<rparr>"
      by (simp add: inherit_property_def make_property_def)
    with assms[OF p] show ?thesis by simp
  qed
qed

lemma preserves_subsystem_build:
  assumes "\<And>c v. P c \<Longrightarrow> P (c\<lparr>derived := v\<rparr>)"
  shows "preserves P (subsystem_build E)"
proof -
  have eq: "subsystem_build E
      = (\<lambda>c. if hierarchical_diagonalization c
              then run [call E GenerateSubsystems, call E UpdateInteractions,
                        call E CheckTruncationIndices, call E SetOperators] c
              else call E SetOperators c)"
    by (rule ext) (simp add: subsystem_build_def)
  have c: "preserves P (call E r)" for r by (rule preserves_call) (rule assms)
  show ?thesis
    unfolding eq
    by (rule preserves_cond, rule preserves_run) (auto intro: c)
qed


lemma preserves_subsystem_harmonic_check:
  assumes "\<And>c v. P c \<Longrightarrow> P (c\<lparr>derived := v\<rparr>)"
    and "\<And>c v. P c \<Longrightarrow> P (c\<lparr>is_purely_harmonic := v\<rparr>)"
    and "\<And>c v. P c \<Longrightarrow> P (c\<lparr>ext_basis := v\<rparr>)"
  shows "preserves P (subsystem_harmonic_check E)"
proof -
  have eq: "subsystem_harmonic_check E
      = (\<lambda>c. if purely_harmonic (hamiltonian_symbolic c)
              then run [assign (\<lambda>c. c\<lparr>is_purely_harmonic := True\<rparr>),
                        assign (\<lambda>c. c\<lparr>ext_basis := ''harmonic''\<rparr>),
                        call E DiagonalizePurelyHarmonicHamiltonian] c
              else assign (\<lambda>c. c\<lparr>is_purely_harmonic := False\<rparr>) c)"
    by (rule ext) (simp add: subsystem_harmonic_check_def)
  have c: "preserves P (call E r)" for r by (rule preserves_call) (rule assms(1))
  have a1: "preserves P (assign (\<lambda>c. c\<lparr>is_purely_harmonic := v\<rparr>))" for v
    by (rule preserves_assign) (rule assms(2))
  have a2: "preserves P (assign (\<lambda>c. c\<lparr>ext_basis := v\<rparr>))" for v
    by (rule preserves_assign) (rule assms(3))
  show ?thesis
    unfolding eq
    by (rule preserves_cond, rule preserves_run) (auto intro: c a1 a2)
qed

lemma Subsystem__configure_preserves:
  assumes "\<And>c v. P c \<Longrightarrow> P (c\<lparr>derived := v\<rparr>)"
    and "\<And>c v. P c \<Longrightarrow> P (c\<lparr>is_purely_harmonic := v\<rparr>)"
    and "\<And>c v. P c \<Longrightarrow> P (c\<lparr>ext_basis := v\<rparr>)"
    and "\<And>c v. P c \<Longrightarrow> P (c\<lparr>attrs := v\<rparr>)"
    and "\<And>c v. P c \<Longrightarrow> P (c\<lparr>frozen := v\<rparr>)"
  shows "preserves P (Subsystem__configure E parent)"
proof (rule preservesI)
  fix c x c'
  assume p: "P c" and e: "Subsystem__configure E parent c = (x, c')"
  have c: "preserves P (call E r)" for r by (rule preserves_call) (rule assms(1))
  have f: "preserves P (assign (\<lambda>c. c\<lparr>frozen := v\<rparr>))" for v
    by (rule preserves_assign) (rule assms(5))
  have i: "preserves P (inherit_property parent name)" for name
    by (rule preserves_inherit_property) (rule assms(4))
  have h: "preserves P (subsystem_harmonic_check E)"
    by (rule preserves_subsystem_harmonic_check) (erule assms)+
  have b: "preserves P (subsystem_build E)"
    by (rule preserves_subsystem_build) (rule assms(1))
  have r: "preserves P (run_if hierarchical_diagonalization (call E RegisterCircuitUpdate))"
    by (rule preserves_run_if) (rule c)
  have "preserves P (run ([assign (\<lambda>c. c\<lparr>frozen := False\<rparr>)]
          @ map (inherit_property parent) (map fst (symbolic_params c))
          @ map (inherit_property parent) (external_fluxes c)
          @ map (inherit_property parent) (offset_charges c)
          @ map (inherit_property parent) (cutoff_names c)
          @ [subsystem_harmonic_check E,
             call E SetVars,
             call E GenerateHamiltonianSymForNumerics,
             subsystem_build E,
             run_if hierarchical_diagonalization (call E RegisterCircuitUpdate),
             assign (\<lambda>c. c\<lparr>frozen := True\<rparr>)]))"
    by (rule preserves_run) (auto intro: c f i h b r)
  from preservesD[OF this p e[unfolded Subsystem__configure_def]] show "P c'" .
qed

section \<open>Facts about the configuration steps\<close>









































section \<open>Evaluating the model\<close>

lemmas model_defs =
  get_trailing_number_def is_digit_def at_dollar_def newline_def int_of_digits_def
  match_prefix_digits_def str_int_def str_nat.simps Phi_def Theta_def
  dict_set_def has_key_def py_or_def number_of_lists_in_list_def flatten_list_def
  requires_hierarchical_diagonalization_def
  assign_def raise_def call_def run_if_def make_property_def hasattr_def set_ext_basis_def
  collect_var_index_def subsystem_var_index_list_def subsystem_var_categories_def
  subsystem_cutoff_names_def inherit_property_def subsystem_harmonic_check_def
  subsystem_build_def Subsystem__configure_def Subsystem_init_def
  set_phi_range_of_def set_discretized_phi_range_def
  read_symbolic_hamiltonian_def harmonic_warning_def harmonic_override_def
  ensure_cutoff_def init_cutoffs_def ensure_property_def ensure_phi_range_def
  init_phi_ranges_def init_properties_def clear_unnecessary_attribs_def
  set_subsystem_trunc_dims_def flat_branch_def hierarchical_branch_def finish_configure_def
  configure_symbolic_circuit_def Circuit__configure_def Circuit__configure_sym_hamiltonian_def
  Circuit_configure_def Circuit_init_from_yaml_def
  dict_for_serialization_def serialize_def find_branch_def deserialize_def
  example_env_def transmon_resonator_def resonator_hamiltonian_def lc_oscillator_def
  spec_trailing_index_def newline_hamiltonian_def
  List.map_filter_def Let_def

section \<open>Subsystem: variable categories\<close>

text \<open>
  What the constructor does for every subsystem (whether or not the configuration that
  ends it raises): the variable indices are the numbers that \<open>get_trailing_number\<close>
  returns for the operator names of the Hamiltonian; for every variable category of the
  parent the subsystem has that category, with the parent's list filtered to the
  subsystem's variable indices, hence a subset of the parent's list; and the subsystem
  has no category that the parent lacks.
\<close>

lemma subsystem_var_categories_filtered:
  assumes "Subsystem_init E parent hamiltonian sh std td = (x, s)"
  shows "set (var_index_list s)
           = {i. \<exists>name \<in> set (operator_names hamiltonian). get_trailing_number name = Some i}
       \<and> (\<forall>var_type. map_of (var_categories s) var_type
             = map_option (filter (\<lambda>i. i \<in> set (var_index_list s)))
                 (map_of (var_categories parent) var_type))
       \<and> (\<forall>var_type l. map_of (var_categories parent) var_type = Some l \<longrightarrow>
             (\<exists>l'. map_of (var_categories s) var_type = Some l' \<and> set l' \<subseteq> set l))"
proof -
  let ?vil = "subsystem_var_index_list (operator_names hamiltonian)"
  let ?cats = "subsystem_var_categories (var_categories parent) ?vil"
  let ?P = "\<lambda>c. var_index_list c = ?vil \<and> var_categories c = ?cats"
  have "preserves ?P (Subsystem__configure E parent)"
    by (rule Subsystem__configure_preserves) simp_all
  from preservesD[OF this _ assms[unfolded Subsystem_init_def Let_def]]
  have s: "var_index_list s = ?vil" "var_categories s = ?cats" by simp_all
  have 1: "set (var_index_list s)
           = {i. \<exists>name \<in> set (operator_names hamiltonian). get_trailing_number name = Some i}"
    unfolding s by (rule set_subsystem_var_index_list)
  have 2: "map_of (var_categories s) var_type
             = map_option (filter (\<lambda>i. i \<in> set (var_index_list s)))
                 (map_of (var_categories parent) var_type)" for var_type
    unfolding s by (rule subsystem_var_categories_lookup)
  have 3: "\<exists>l'. map_of (var_categories s) var_type = Some l' \<and> set l' \<subseteq> set l"
    if "map_of (var_categories parent) var_type = Some l" for var_type l
    using 2[of var_type] that by auto
  from 1 2 3 show ?thesis by blast
qed

text \<open>
  When no operator name ends in a newline, the list of a category is the parent's list
  filtered to the trailing integer indices of the operator names: the indices that occur
  in the Hamiltonian.
\<close>

lemma subsystem_categories_by_spec_index:
  assumes init: "Subsystem_init E parent hamiltonian sh std td = (x, s)"
    and names: "\<forall>name \<in> set (operator_names hamiltonian).
                  (name = [] \<or> last name \<noteq> newline)
                  \<and> (\<forall>ch \<in> set name. of_char ch < (0xC0::nat) \<or> ch = CHR 0xCE \<or> ch = CHR 0xCF)
                  \<and> length name \<le> 4300"
  shows "set (var_index_list s)
           = {i. \<exists>name \<in> set (operator_names hamiltonian). spec_trailing_index name = Some i}"
    and "map_of (var_categories s) var_type
           = map_option
               (filter (\<lambda>i. \<exists>name \<in> set (operator_names hamiltonian).
                              spec_trailing_index name = Some i))
               (map_of (var_categories parent) var_type)"
proof -
  have eq: "get_trailing_number name = spec_trailing_index name"
    if "name \<in> set (operator_names hamiltonian)" for name
    using names that by (intro get_trailing_number_spec_trailing_index) blast+
  from subsystem_var_categories_filtered[OF init]
  have 1: "set (var_index_list s)
           = {i. \<exists>name \<in> set (operator_names hamiltonian). get_trailing_number name = Some i}"
    and 2: "map_of (var_categories s) var_type
             = map_option (filter (\<lambda>i. i \<in> set (var_index_list s)))
                 (map_of (var_categories parent) var_type)"
    by blast+
  show 3: "set (var_index_list s)
           = {i. \<exists>name \<in> set (operator_names hamiltonian). spec_trailing_index name = Some i}"
    unfolding 1 using eq by auto
  show "map_of (var_categories s) var_type
           = map_option
               (filter (\<lambda>i. \<exists>name \<in> set (operator_names hamiltonian).
                              spec_trailing_index name = Some i))
               (map_of (var_categories parent) var_type)"
    unfolding 2 3 by simp
qed

lemma transmon_resonator_circuit_value:
  "transmon_resonator_circuit =
     \<lparr>is_child = False, frozen = True,
      symbolic_circuit = Some transmon_resonator,
      hamiltonian_symbolic = sc_hamiltonian_symbolic transmon_resonator,
      ext_basis = ''discretized'', truncated_dim = Some 10,
      system_hierarchy = None, subsystem_trunc_dims = None,
      transformation_matrix = Some [[1, 0], [0, 1]],
      closure_branches = Some [], external_fluxes = [],
      offset_charges = [''ng1''],
      symbolic_params = [(''EJ'', 20), (''ECg'', 5), (''EL'', 10), (''EC'', 1)],
      var_categories =
        [(''periodic'', [1]), (''extended'', [2]), (''free'', []), (''frozen'', [])],
      var_index_list = [1, 2], is_purely_harmonic = False,
      hierarchical_diagonalization = False,
      cutoff_names = [''cutoff_n_1'', ''cutoff_ext_2''],
      attrs = [(''cutoff_n_1'', IntV 5), (''cutoff_ext_2'', IntV 30), (''EJ'', FloatV 20),
               (''ECg'', FloatV 5), (''EL'', FloatV 10), (''EC'', FloatV 1), (''ng1'', FloatV 0)],
      discretized_phi_range = [(2, - 6 * pi, 6 * pi)],
      type_of_matrices = ''sparse'', warnings = [], derived = 0\<rparr>"
  unfolding transmon_resonator_circuit_def by (simp add: model_defs)


section \<open>Subsystem: symbol names without index\<close>

text \<open>
  Claim C9, evaluated where the code departs from it. The name \<open>a1\<close> followed by a
  newline does not end in an integer (its last character is the newline), yet
  \<open>get_trailing_number\<close> returns 1 for it, because \<open>$\<close> also matches before a final
  newline; the constructor of \<open>Subsystem\<close> then lists 1 among the variable indices.
\<close>

theorem trailing_number_before_final_newline:
  "\<not> is_digit (last (''a1'' @ [newline]))
   \<and> get_trailing_number (''a1'' @ [newline]) = Some 1
   \<and> subsystem_var_index_list [''a1'' @ [newline]] = [1]"
  by (simp add: model_defs)

text \<open>
  Names whose last character is an ASCII character other than a digit and a newline are
  left out of the variable indices, and collecting the indices raises nothing.
\<close>

lemma subsystem_var_index_list_skips:
  assumes "name = [] \<or> (of_char (last name) < (128::nat) \<and> \<not> is_digit (last name)
                          \<and> last name \<noteq> newline)"
  shows "get_trailing_number name = None"
    and "subsystem_var_index_list (names @ [name] @ names')
           = subsystem_var_index_list (names @ names')"
proof -
  show n: "get_trailing_number name = None" by (rule get_trailing_number_None[OF assms])
  then have "collect_var_index name acc = acc" for acc
    by (simp add: collect_var_index_def)
  then show "subsystem_var_index_list (names @ [name] @ names')
           = subsystem_var_index_list (names @ names')"
    by (simp add: subsystem_var_index_list_def)
qed

section \<open>Subsystem: type of matrices\<close>

text \<open>
  Claim C6, evaluated where the code departs from it. The resonator of the example
  circuit as a subsystem: one variable; the parent uses the discretized basis; the
  Hamiltonian is purely harmonic, so the constructor switches the subsystem to the
  harmonic basis, after it has chosen the type of matrices from the parent's basis.
  The subsystem has one degree of freedom and the harmonic basis, and sparse matrices.
\<close>

theorem subsystem_one_harmonic_variable_sparse:
  "(case Subsystem_init (example_env transmon_resonator) transmon_resonator_circuit
           resonator_hamiltonian (Some [Idx 2]) None (Some 10) of
      (x, s) \<Rightarrow> x = None \<and> var_index_list s = [2] \<and> ext_basis s = ''harmonic''
                 \<and> type_of_matrices s = ''sparse'')"
  unfolding transmon_resonator_circuit_value
  by (simp add: model_defs)

section \<open>set\_discretized\_phi\_range\<close>

text \<open>
  Claim C8, evaluated where the code departs from it. On the example circuit variable
  2 is extended and variable 1 is not: the call with the indices \<open>[2, 1]\<close> raises for
  index 1 after it has stored the new range of variable 2.
\<close>

theorem phi_range_stored_before_raise:
  "(case set_discretized_phi_range (example_env transmon_resonator) [2, 1] (- 1, 1)
           transmon_resonator_circuit of
      (x, c') \<Rightarrow> x = Some (NotExtendedVariable 1)
                 \<and> map_of (discretized_phi_range transmon_resonator_circuit) 2
                       = Some (- 6 * pi, 6 * pi)
                 \<and> map_of (discretized_phi_range c') 2 = Some (- 1, 1)
                 \<and> discretized_phi_range c' \<noteq> discretized_phi_range transmon_resonator_circuit)"
proof -
  have "6 * pi \<noteq> (1::real)" using pi_ge_two by linarith
  then show ?thesis
    unfolding transmon_resonator_circuit_value by (simp add: model_defs)
qed

text \<open>
  The part of the claim that holds: without the discretized basis, and when the first
  index is not an extended variable, nothing is changed.
\<close>

lemma set_discretized_phi_range_untouched:
  "ext_basis c \<noteq> ''discretized'' \<Longrightarrow>
     set_discretized_phi_range E var_indices phi_range c = (Some PhiRangeNotDiscretized, c)"
  "ext_basis c = ''discretized'' \<Longrightarrow> map_of (var_categories c) ''extended'' = Some extended \<Longrightarrow>
     var_index \<notin> set extended \<Longrightarrow>
     set_discretized_phi_range E (var_index # var_indices) phi_range c
       = (Some (NotExtendedVariable var_index), c)"
  by (simp_all add: set_discretized_phi_range_def set_phi_range_of_def)

section \<open>Extended variable: trigonometric operators\<close>

lemma cos_phi_is_cos_dia:
  "cos_phi grid = map_sum (\<lambda>e. e) cos_dia (phi_operator grid)"
proof (cases "pt_count grid < 0")
  case True
  then show ?thesis unfolding cos_phi_def phi_operator_def dia_matrix_empty_def by simp
next
  case False
  then obtain xs where xs: "make_linspace grid = Inr xs" "length xs = nat (pt_count grid)"
    unfolding make_linspace_def by auto
  show ?thesis
    using False xs unfolding cos_phi_def phi_operator_def dia_matrix_empty_def cos_dia_def diags_def
    by (auto simp: setdiag_matrix_of diagonal_matrix_of intro!: matrix_of_cong)
qed

lemma unit_grid_linspace: "make_linspace unit_grid = Inr [0, 1]"
  unfolding make_linspace_def unit_grid_def by (simp add: upt_rec numeral_eq_Suc)

lemma unit_grid_empty:
  "dia_matrix_empty (pt_count unit_grid) (pt_count unit_grid) = Inr [[0, 0], [0, 0]]"
  unfolding dia_matrix_empty_def unit_grid_def matrix_of_def by (simp add: upt_rec numeral_eq_Suc)

lemma setdiag_2: "setdiag [a, b] [[0, 0], [0, 0]] = [[a, 0], [0, b]]"
  unfolding setdiag_def by (simp add: upt_rec numeral_eq_Suc)

lemma diagonal_2: "diagonal [[a, b], [c, d]] = [a, d]"
  unfolding diagonal_def by (simp add: upt_rec numeral_eq_Suc)

lemma diags_2: "diags [a, b] = [[a, 0], [0, b]]"
  unfolding diags_def matrix_of_def by (simp add: upt_rec numeral_eq_Suc)

text \<open>
  Claim C2, evaluated where the code departs from it. On the grid of the two points 0
  and 1 the cosine factory is the cosine of the diagonal of the flux operator, as the
  claim says; the sine factory returns the same matrix, with \<open>cos 0 = 1\<close> in its first
  entry where the sine of the diagonal of the flux operator has \<open>sin 0 = 0\<close>.
\<close>

theorem sin_phi_is_cosine:
  "phi_operator unit_grid = Inr [[0, 0], [0, 1]]
   \<and> cos_phi unit_grid = Inr [[1, 0], [0, cos 1]]
   \<and> sin_phi unit_grid = Inr [[1, 0], [0, cos 1]]
   \<and> map_sum (\<lambda>e. e) sin_dia (phi_operator unit_grid) = Inr [[0, 0], [0, sin 1]]
   \<and> sin_phi unit_grid \<noteq> map_sum (\<lambda>e. e) sin_dia (phi_operator unit_grid)"
  unfolding sin_phi_def cos_phi_def phi_operator_def sin_dia_def
  by (simp add: unit_grid_linspace unit_grid_empty setdiag_2 diagonal_2 diags_2)

section \<open>Purely harmonic Hamiltonians\<close>





section \<open>configure: hierarchy and truncated dimensions\<close>

lemma hierarchical_circuit_fields:
  "system_hierarchy hierarchical_circuit = Some [Lst [Idx 1], Lst [Idx 2]]
   \<and> subsystem_trunc_dims hierarchical_circuit = Some [Idx 3, Idx 3]
   \<and> same_nested_shape [Lst [Idx 1], Lst [Idx 2]] [Idx 3, Idx 3]"
  unfolding hierarchical_circuit_def transmon_resonator_circuit_value
  by (simp add: model_defs same_nested_shape_def truncation_template_def)




section \<open>configure: the state after a failure\<close>





section \<open>Serialization: the transformation matrix\<close>

text \<open>
  Claim C4, evaluated where the code departs from it. The example circuit is configured
  with the transformation matrix \<open>[[1, 1], [0, 1]]\<close> given by the user and serialized;
  the dictionary holds the matrix. \<open>deserialize\<close> configures the new instance without
  it, so the instance has the transformation matrix that the symbolic circuit chooses,
  the identity, and with it the operators and the Hamiltonian of other variables than
  the original; the user's matrix is only written to the slot \<open>_transformation_matrix\<close>,
  which nothing reads.
\<close>

theorem deserialize_drops_transformation_matrix:
  "transformation_matrix transformed_circuit = Some [[1, 1], [0, 1]]
   \<and> (case serialize transformed_circuit of
         Inl e \<Rightarrow> False
       | Inr iodata \<Rightarrow>
           map_of (ser_modified_attributes iodata) ''transformation_matrix''
             = Some (MatrixV (Some [[1, 1], [0, 1]]))
           \<and> (case deserialize (example_env transmon_resonator) iodata of
                 Inl e \<Rightarrow> False
               | Inr c \<Rightarrow>
                   transformation_matrix c = Some [[1, 0], [0, 1]]
                   \<and> map_of (attrs c) ''transformation_matrix''
                       = Some (MatrixV (Some [[1, 1], [0, 1]]))))"
  unfolding transformed_circuit_def transmon_resonator_circuit_value
  by (simp add: model_defs)

end
